theory Spec2Isabelle
  imports Complex_Main
begin

section \<open>JavaScript strings\<close>

text \<open>
  The bot (\<^verbatim>\<open>src/whatsapp-bot/bot.js\<close>) works on JavaScript strings, which are
  sequences of UTF-16 code units. A string is modelled as the list of its code units;
  \<open>js\<close> writes an ASCII literal. The accented letters of the source's regular
  expressions are precomposed Latin-1 characters in the file (a with acute is U+00E1 = 225).
\<close>

type_synonym jsstring = "nat list"

definition js :: "string \<Rightarrow> jsstring" where
  "js s = map of_char s"

text \<open>\<^verbatim>\<open>\d\<close> of a regular expression without the \<^verbatim>\<open>u\<close> flag: the ten ASCII digits.\<close>

definition esDigito :: "nat \<Rightarrow> bool" where
  "esDigito c = (48 \<le> c \<and> c \<le> 57)"

text \<open>
  \<^verbatim>\<open>\s\<close>, and the characters \<^verbatim>\<open>trim()\<close> removes: ECMAScript's WhiteSpace and
  LineTerminator code points.
\<close>

definition esEspacio :: "nat \<Rightarrow> bool" where
  "esEspacio c = (c = 9 \<or> c = 10 \<or> c = 11 \<or> c = 12 \<or> c = 13 \<or> c = 32 \<or> c = 160
     \<or> c = 5760 \<or> (8192 \<le> c \<and> c \<le> 8202) \<or> c = 8232 \<or> c = 8233 \<or> c = 8239
     \<or> c = 8287 \<or> c = 12288 \<or> c = 65279)"

definition trim :: "jsstring \<Rightarrow> jsstring" where
  "trim s = rev (dropWhile esEspacio (rev (dropWhile esEspacio s)))"

definition startsWith :: "jsstring \<Rightarrow> jsstring \<Rightarrow> bool" where
  "startsWith s p = (take (length p) s = p)"

text \<open>\<^verbatim>\<open>s.includes(p)\<close>: \<open>p\<close> occurs in \<open>s\<close> as a contiguous run.\<close>

fun includesStr :: "jsstring \<Rightarrow> jsstring \<Rightarrow> bool" where
  "includesStr [] p = (p = [])"
| "includesStr (c # cs) p = (startsWith (c # cs) p \<or> includesStr cs p)"

text \<open>\<^verbatim>\<open>xs.join(sep)\<close>.\<close>

fun unir :: "jsstring \<Rightarrow> jsstring list \<Rightarrow> jsstring" where
  "unir sep [] = []"
| "unir sep [x] = x"
| "unir sep (x # y # ys) = x @ sep @ unir sep (y # ys)"

text \<open>
  \<^verbatim>\<open>s.split(c)\<close> for a one-character separator: every occurrence separates, so
  \<^verbatim>\<open>"a//b"\<close> gives three parts and the empty string gives one empty part.
\<close>

fun splitOn :: "nat \<Rightarrow> jsstring \<Rightarrow> jsstring list" where
  "splitOn sep [] = [[]]"
| "splitOn sep (c # cs) =
     (if c = sep then [] # splitOn sep cs
      else (case splitOn sep cs of [] \<Rightarrow> [[c]] | t # ts \<Rightarrow> (c # t) # ts))"

text \<open>
  \<^verbatim>\<open>s.split(/\s+/)\<close>: a maximal run of white space separates; a string that starts
  or ends with white space gets an empty first or last part.
\<close>

fun splitEspacios :: "jsstring \<Rightarrow> jsstring list" where
  "splitEspacios [] = [[]]"
| "splitEspacios (c # cs) =
     (if esEspacio c then
        (case cs of
           [] \<Rightarrow> [] # splitEspacios cs
         | d # _ \<Rightarrow> if esEspacio d then splitEspacios cs else [] # splitEspacios cs)
      else (case splitEspacios cs of [] \<Rightarrow> [[c]] | t # ts \<Rightarrow> (c # t) # ts))"

text \<open>
  \<^verbatim>\<open>toLowerCase()\<close> on Basic Latin and the Latin-1 Supplement (A-Z, and U+00C0 to
  U+00DE without the multiplication sign). Other code units are left as they are: the
  runtime's full Unicode case tables are not part of the repository. No character
  outside ASCII lowercases to a letter of the bot's keywords, so the comparisons with
  \<^verbatim>\<open>'pago'\<close>, \<^verbatim>\<open>'ref:'\<close> or the payment methods are exact.
\<close>

definition minuscula :: "nat \<Rightarrow> nat" where
  "minuscula c = (if (65 \<le> c \<and> c \<le> 90) \<or> (192 \<le> c \<and> c \<le> 222 \<and> c \<noteq> 215) then c + 32 else c)"

definition toLowerCase :: "jsstring \<Rightarrow> jsstring" where
  "toLowerCase s = map minuscula s"

text \<open>
  The \<^verbatim>\<open>i\<close> flag of a regular expression compares characters after mapping each to
  upper case (a character outside ASCII is never mapped into ASCII). For the letters
  the source's patterns use (a-z, the Latin-1 accented vowels and n with tilde), a
  character matches a pattern letter exactly when it is that letter in either case.
\<close>

definition canonRegex :: "nat \<Rightarrow> nat" where
  "canonRegex c = (if (97 \<le> c \<and> c \<le> 122) \<or> (224 \<le> c \<and> c \<le> 254 \<and> c \<noteq> 247) then c - 32 else c)"

definition includes_i :: "jsstring \<Rightarrow> jsstring \<Rightarrow> bool" where
  "includes_i s p = includesStr (map canonRegex s) (map canonRegex p)"

definition startsWith_i :: "jsstring \<Rightarrow> jsstring \<Rightarrow> bool" where
  "startsWith_i s p = startsWith (map canonRegex s) (map canonRegex p)"

section \<open>JavaScript numbers\<close>

text \<open>
  A number is \<open>NaN\<close>, an infinity (\<open>Infinito True\<close> is \<^verbatim>\<open>+Infinity\<close>) or finite.
  \<open>Fin v\<close> carries the exact decimal value \<open>v\<close> of the text it was parsed from; the
  rounding of the mantissa to the nearest IEEE double is not modelled, so a decimal
  within \<open>2^-48\<close> of one of the constants 1, 28 or 50 may compare differently from the
  double. What is modelled exactly is which texts give \<open>NaN\<close>, zero (underflow
  included) and the infinities (overflow included): \<open>redondear\<close> maps a value of at most
  half the least subnormal to zero and a value of at least \<open>2^1024 - 2^970\<close> to infinity.
\<close>

datatype jsnum = NaN | Fin rat | Infinito bool

definition redondear :: "rat \<Rightarrow> jsnum" where
  "redondear v =
     (if \<bar>v\<bar> \<le> 1 / 2 ^ 1075 then Fin 0
      else if 2 ^ 1024 - 2 ^ 970 \<le> \<bar>v\<bar> then Infinito (0 < v)
      else Fin v)"

text \<open>\<^verbatim>\<open>n >= k\<close>, \<^verbatim>\<open>n <= k\<close> and \<^verbatim>\<open>n > k\<close> against a finite constant; false for \<open>NaN\<close>.\<close>

fun mayorIgual :: "jsnum \<Rightarrow> rat \<Rightarrow> bool" where
  "mayorIgual NaN k = False"
| "mayorIgual (Fin v) k = (k \<le> v)"
| "mayorIgual (Infinito s) k = s"

fun menorIgual :: "jsnum \<Rightarrow> rat \<Rightarrow> bool" where
  "menorIgual NaN k = False"
| "menorIgual (Fin v) k = (v \<le> k)"
| "menorIgual (Infinito s) k = (\<not> s)"

fun mayor :: "jsnum \<Rightarrow> rat \<Rightarrow> bool" where
  "mayor NaN k = False"
| "mayor (Fin v) k = (k < v)"
| "mayor (Infinito s) k = s"

text \<open>\<^verbatim>\<open>a === b\<close> on two numbers: \<open>NaN\<close> equals nothing.\<close>

definition igualEstricto :: "jsnum \<Rightarrow> jsnum \<Rightarrow> bool" where
  "igualEstricto a b = (a \<noteq> NaN \<and> a = b)"

text \<open>The value of a run of decimal digits.\<close>

definition valorDigitos :: "jsstring \<Rightarrow> nat" where
  "valorDigitos ds = foldl (\<lambda>a c. 10 * a + (c - 48)) 0 ds"

text \<open>
  \<^verbatim>\<open>parseFloat(s)\<close>: skip leading white space, read an optional sign, then
  \<^verbatim>\<open>Infinity\<close> or the longest prefix that is a decimal literal (digits, an optional
  fraction, an optional exponent that is only read when it has a digit). Anything after
  that prefix is ignored; no digit at all gives \<open>NaN\<close>.
\<close>

definition exponente :: "jsstring \<Rightarrow> int" where
  "exponente r =
     (case r of
        [] \<Rightarrow> 0
      | e # r1 \<Rightarrow>
          if e = 101 \<or> e = 69 then
            (let neg = (case r1 of [] \<Rightarrow> False | g # _ \<Rightarrow> g = 45);
                 r2 = (case r1 of [] \<Rightarrow> [] | g # t \<Rightarrow> if g = 45 \<or> g = 43 then t else r1);
                 ds = takeWhile esDigito r2
             in if ds = [] then 0
                else if neg then - int (valorDigitos ds) else int (valorDigitos ds))
          else 0)"

definition escalar :: "rat \<Rightarrow> int \<Rightarrow> rat" where
  "escalar m e = (if 0 \<le> e then m * 10 ^ nat e else m / 10 ^ nat (- e))"

definition parseFloat :: "jsstring \<Rightarrow> jsnum" where
  "parseFloat s =
     (let s1 = dropWhile esEspacio s;
          neg = (case s1 of [] \<Rightarrow> False | g # _ \<Rightarrow> g = 45);
          s2 = (case s1 of [] \<Rightarrow> [] | g # t \<Rightarrow> if g = 45 \<or> g = 43 then t else s1)
      in if startsWith s2 (js ''Infinity'') then Infinito (\<not> neg)
         else
           (let ent = takeWhile esDigito s2;
                r1 = dropWhile esDigito s2;
                punto = (case r1 of [] \<Rightarrow> False | g # _ \<Rightarrow> g = 46);
                frac = (if punto then takeWhile esDigito (tl r1) else []);
                r2 = (if punto then dropWhile esDigito (tl r1) else r1)
            in if ent = [] \<and> frac = [] then NaN
               else
                 (let m = of_nat (valorDigitos ent)
                          + of_nat (valorDigitos frac) / 10 ^ length frac;
                      v = escalar m (exponente r2)
                  in redondear (if neg then - v else v))))"

section \<open>The field classifier of \<^verbatim>\<open>registrarCliente\<close>\<close>

text \<open>
  \<^verbatim>\<open>/^(\d{1,3}\.){3}\d{1,3}$/\<close>: exactly three dots, separating four groups of one to
  three digits. The same expression is used by \<^verbatim>\<open>registrarCliente\<close> (line 418) and
  by \<^verbatim>\<open>buscarCliente\<close> (line 654).
\<close>

definition grupoIP :: "jsstring \<Rightarrow> bool" where
  "grupoIP g = (1 \<le> length g \<and> length g \<le> 3 \<and> list_all esDigito g)"

definition esIP :: "jsstring \<Rightarrow> bool" where
  "esIP s = (case splitOn 46 s of
               [a, b, c, d] \<Rightarrow> grupoIP a \<and> grupoIP b \<and> grupoIP c \<and> grupoIP d
             | _ \<Rightarrow> False)"

text \<open>
  \<^verbatim>\<open>/mbps|b(a-acute)sico|basico|estandar|est(a-acute)ndar|premium|avanzado|mega/i\<close> (line 422),
  where the accented letter is code unit 225.
\<close>

definition palabrasPlan :: "jsstring list" where
  "palabrasPlan =
     [js ''mbps'', js ''b'' @ [225] @ js ''sico'', js ''basico'', js ''estandar'',
      js ''est'' @ [225] @ js ''ndar'', js ''premium'', js ''avanzado'', js ''mega'']"

definition esPlan :: "jsstring \<Rightarrow> bool" where
  "esPlan campo = list_ex (includes_i campo) palabrasPlan"

text \<open>
  \<^verbatim>\<open>campo.match(/(\d+)\s*mbps/i)\<close> (line 425): the leftmost position where a run of
  digits, taken greedily, is followed by optional white space and \<^verbatim>\<open>mbps\<close>; the
  result is group 1, the digits. (Giving back digits never helps: the next character
  would be a digit, which neither \<^verbatim>\<open>\s\<close> nor \<^verbatim>\<open>m\<close> matches.)
\<close>

definition matchVelAqui :: "jsstring \<Rightarrow> bool" where
  "matchVelAqui s =
     (takeWhile esDigito s \<noteq> []
      \<and> startsWith_i (dropWhile esEspacio (dropWhile esDigito s)) (js ''mbps''))"

fun matchVel :: "jsstring \<Rightarrow> jsstring option" where
  "matchVel [] = None"
| "matchVel (c # cs) =
     (if matchVelAqui (c # cs) then Some (takeWhile esDigito (c # cs)) else matchVel cs)"

text \<open>
  \<^verbatim>\<open>/^\d{8,}$/.test(campo.replace(/[-\s\+]/g, ''))\<close> (line 432): every hyphen, white
  space character and plus sign is removed, wherever it stands; what is left must be
  eight or more digits.
\<close>

definition quitarSeparadores :: "jsstring \<Rightarrow> jsstring" where
  "quitarSeparadores campo = filter (\<lambda>c. \<not> (c = 45 \<or> esEspacio c \<or> c = 43)) campo"

definition esTelefono :: "jsstring \<Rightarrow> bool" where
  "esTelefono campo =
     (8 \<le> length (quitarSeparadores campo) \<and> list_all esDigito (quitarSeparadores campo))"

text \<open>\<^verbatim>\<open>/^\d+(\.\d+)?$/\<close> (line 436).\<close>

definition esNumero :: "jsstring \<Rightarrow> bool" where
  "esNumero campo =
     (takeWhile esDigito campo \<noteq> []
      \<and> (case dropWhile esDigito campo of
            [] \<Rightarrow> True
          | p # r \<Rightarrow> p = 46 \<and> r \<noteq> [] \<and> list_all esDigito r))"

text \<open>
  \<^verbatim>\<open>/[a-z(a,e,i,o,u with acute)(n with tilde)]/i\<close> (line 456): some character is an ASCII letter or one
  of the six accented letters (225, 233, 237, 243, 250, 241), in either case.
\<close>

definition esLetra :: "nat \<Rightarrow> bool" where
  "esLetra c =
     (let u = canonRegex c
      in (65 \<le> u \<and> u \<le> 90) \<or> u = 193 \<or> u = 201 \<or> u = 205 \<or> u = 211 \<or> u = 218 \<or> u = 209)"

definition tieneLetra :: "jsstring \<Rightarrow> bool" where
  "tieneLetra campo = list_ex esLetra campo"

text \<open>The local variables of \<^verbatim>\<open>registrarCliente\<close> that the loop assigns (lines 404-411).\<close>

record campos_cliente =
  ip :: jsstring
  plan :: jsstring
  telefono :: jsstring
  direccion :: jsstring
  diaCorteFinal :: jsnum
  precio :: jsnum
  velocidadDown :: jsstring
  velocidadUp :: jsstring

definition planPorDefecto :: jsstring where
  "planPorDefecto = js ''Basico 7Mbps''"

definition camposIniciales :: campos_cliente where
  "camposIniciales =
     \<lparr>ip = [], plan = planPorDefecto, telefono = [], direccion = [],
      diaCorteFinal = Fin 1, precio = Fin 0,
      velocidadDown = js ''7M'', velocidadUp = js ''7M''\<rparr>"

text \<open>
  Lines 437-453, the body of the branch for a pure number, with \<open>num\<close> the value
  \<^verbatim>\<open>parseFloat(campo)\<close>. The inner test \<^verbatim>\<open>num >= 50\<close> of the first branch is kept
  as the source has it.
\<close>

definition asignarNumero :: "campos_cliente \<Rightarrow> jsnum \<Rightarrow> campos_cliente" where
  "asignarNumero st num =
     (if mayorIgual num 1 \<and> menorIgual num 28 \<and> igualEstricto (diaCorteFinal st) (Fin 1)
         \<and> igualEstricto (precio st) (Fin 0) then
        (if mayorIgual num 50 then st\<lparr>precio := num\<rparr> else st\<lparr>diaCorteFinal := num\<rparr>)
      else if mayorIgual num 50 then st\<lparr>precio := num\<rparr>
      else if mayorIgual num 1 \<and> menorIgual num 28 \<and> igualEstricto (diaCorteFinal st) (Fin 1) then
        st\<lparr>diaCorteFinal := num\<rparr>
      else st)"

text \<open>The body of the loop over \<^verbatim>\<open>camposRestantes\<close> (lines 416-464).\<close>

definition clasificarCampo :: "campos_cliente \<Rightarrow> jsstring \<Rightarrow> campos_cliente" where
  "clasificarCampo st campo =
     (if esIP campo then st\<lparr>ip := campo\<rparr>
      else if esPlan campo then
        (case matchVel campo of
           Some d \<Rightarrow> st\<lparr>plan := campo, velocidadDown := d @ js ''M'', velocidadUp := d @ js ''M''\<rparr>
         | None \<Rightarrow> st\<lparr>plan := campo\<rparr>)
      else if esTelefono campo then st\<lparr>telefono := campo\<rparr>
      else if esNumero campo then asignarNumero st (parseFloat campo)
      else if tieneLetra campo then
        (if direccion st \<noteq> [] then st\<lparr>direccion := direccion st @ js '', '' @ campo\<rparr>
         else st\<lparr>direccion := campo\<rparr>)
      else st)"

definition clasificar :: "jsstring list \<Rightarrow> campos_cliente" where
  "clasificar camposRestantes = foldl clasificarCampo camposIniciales camposRestantes"

text \<open>
  Lines 375-376: \<^verbatim>\<open>args.join(' ').split('/').map(c => c.trim()).filter(c => c.length > 0)\<close>.
\<close>

definition separarCampos :: "jsstring list \<Rightarrow> jsstring list" where
  "separarCampos args = filter (\<lambda>c. 0 < length c) (map trim (splitOn 47 (unir (js '' '') args)))"

section \<open>The registry as the bot sees it\<close>

text \<open>
  A record of the roster, with the fields of the JSON object that the bot reads.
  \<^verbatim>\<open>telefono\<close> and \<^verbatim>\<open>direccion\<close> may be absent (\<^verbatim>\<open>null\<close>).
\<close>

record cliente =
  c_id :: nat
  c_nombre :: jsstring
  c_ip_address :: jsstring
  c_plan :: jsstring
  c_velocidad_download :: jsstring
  c_velocidad_upload :: jsstring
  c_telefono :: "jsstring option"
  c_direccion :: "jsstring option"
  c_dia_corte :: jsnum
  c_precio_mensual :: jsnum
  c_estado :: jsstring

text \<open>
  What \<^verbatim>\<open>axios.get(API_URL + '/api/clientes')\<close> does: it rejects (\<open>ErrorRed\<close>), or it
  resolves with a response whose \<^verbatim>\<open>data\<close> is missing (\<open>SinDatos\<close>) or is an object
  with a \<^verbatim>\<open>success\<close> member (its truthiness) and a \<^verbatim>\<open>clientes\<close> member
  (\<open>None\<close> when it is missing).
\<close>

datatype respuesta_lista = ErrorRed | SinDatos | Datos bool "cliente list option"

text \<open>
  What \<^verbatim>\<open>axios.put\<close> and \<^verbatim>\<open>axios.post\<close> do: they reject with an error that carries
  \<^verbatim>\<open>error.response.data\<close> (and perhaps its \<^verbatim>\<open>error\<close> text), they fail with no such
  data (no response at all, or a response without a body to read \<^verbatim>\<open>success\<close> from),
  or they resolve with \<^verbatim>\<open>data.success\<close> and perhaps \<^verbatim>\<open>data.error\<close>.
\<close>

datatype respuesta_mutacion =
  FalloSinRespuesta | FalloConRespuesta "jsstring option" | Resuelta bool "jsstring option"

text \<open>The body of the PUT (lines 498-509): a member is \<open>None\<close> when it is not sent.\<close>

record datos_actualizar =
  u_nombre :: jsstring
  u_telefono :: "jsstring option"
  u_direccion :: "jsstring option"
  u_plan :: jsstring
  u_velocidad_download :: jsstring
  u_velocidad_upload :: jsstring
  u_precio_mensual :: "jsnum option"
  u_dia_corte :: jsnum

text \<open>The body of the POST that creates a client (lines 540-550).\<close>

record datos_crear =
  n_nombre :: jsstring
  n_ip_address :: jsstring
  n_plan :: jsstring
  n_telefono :: jsstring
  n_direccion :: jsstring
  n_dia_corte :: jsnum
  n_precio_mensual :: jsnum
  n_velocidad_download :: jsstring
  n_velocidad_upload :: jsstring

text \<open>
  The body of the POST that records a payment (lines 271-278); \<^verbatim>\<open>notas\<close> and
  \<^verbatim>\<open>registrado_por\<close> are constants.
\<close>

record cuerpo_pago =
  p_cliente_id :: nat
  p_monto :: jsnum
  p_metodo_pago :: jsstring
  p_referencia :: jsstring

text \<open>
  The registry during the handling of one message. Each handler asks for the roster at
  most once and sends at most one mutation, so one answer per request is enough.
\<close>

record registro =
  listar :: respuesta_lista
  registrarPago :: "cuerpo_pago \<Rightarrow> respuesta_mutacion"
  actualizar :: "nat \<Rightarrow> datos_actualizar \<Rightarrow> respuesta_mutacion"
  crear :: "datos_crear \<Rightarrow> respuesta_mutacion"

section \<open>Replies and traces\<close>

text \<open>One line of the change report (lines 516-521): the field, its old and its new value.\<close>

datatype cambio =
  CambioNombre jsstring jsstring
| CambioTelefono "jsstring option" jsstring
| CambioDireccion "jsstring option" jsstring
| CambioPlan jsstring jsstring
| CambioPrecio jsnum jsnum
| CambioDiaCorte jsnum jsnum

text \<open>Lines 523-525: the joined lines, or \<^verbatim>\<open>_Sin cambios detectados_\<close>.\<close>

datatype texto_cambios = SinCambiosDetectados | ListaCambios "cambio list"

text \<open>
  The texts the bot sends with \<^verbatim>\<open>message.reply\<close>, one constructor for each literal or
  template of the source, with the values the template interpolates.
\<close>

datatype respuesta =
  R_PagoFormato
| R_PagoSinMonto
| R_PagoSinIdentificador
| R_NoConexion
| R_SinClientes
| R_ErrorAPI
| R_PagoNoEncontrado jsstring
| R_PagoVarios "cliente list"
| R_PagoRegistrado cliente jsnum jsstring jsstring
| R_PagoError "jsstring option"
| R_PagoSinSistema
| R_ConsultaUso
| R_ConsultaNoEncontrado jsstring
| R_ConsultaVarios "cliente list"
| R_ConsultaInfo cliente
| R_ClienteFormato
| R_ClienteSinNombre
| R_ClienteSinIP
| R_ClienteActualizado jsstring jsstring texto_cambios
| R_ClienteErrorActualizar "jsstring option"
| R_ClienteRegistrado jsstring campos_cliente
| R_ClienteError "jsstring option"
| R_ClienteErrorRespuesta "jsstring option"
| R_ClienteSinSistema
| R_Ayuda
| R_ComandoNoReconocido
| R_ErrorInterno

text \<open>
  What a handler does that the outside can see, in order: the requests to the registry
  and the replies. \<^verbatim>\<open>message.reply\<close> is taken to deliver.
\<close>

datatype evento =
  PideLista
| PidePago cuerpo_pago
| PideActualizar nat datos_actualizar
| PideCrear datos_crear
| Responde respuesta

text \<open>A handler returns, or throws, after the events it produced.\<close>

datatype ejecucion = Termina "evento list" | Lanza "evento list"

fun eventos :: "ejecucion \<Rightarrow> evento list" where
  "eventos (Termina es) = es"
| "eventos (Lanza es) = es"

fun respuestasDe :: "evento list \<Rightarrow> respuesta list" where
  "respuestasDe [] = []"
| "respuestasDe (Responde r # es) = r # respuestasDe es"
| "respuestasDe (_ # es) = respuestasDe es"

section \<open>\<^verbatim>\<open>normalizarTexto\<close> and \<^verbatim>\<open>buscarCliente\<close>\<close>

text \<open>
  \<^verbatim>\<open>normalize('NFD')\<close> on the Latin-1 Supplement: an accented letter becomes its base
  letter followed by a combining mark (U+0300 grave, U+0301 acute, U+0302 circumflex,
  U+0303 tilde, U+0308 diaeresis, U+030A ring, U+0327 cedilla). The table lists the
  lower-case letters; an upper-case letter is 32 below its lower-case form. Other code
  units are left as they are: the runtime's Unicode tables are not part of the
  repository.
\<close>

definition tablaNFD :: "(nat \<times> nat \<times> nat) list" where
  "tablaNFD =
     [(224, 97, 768), (225, 97, 769), (226, 97, 770), (227, 97, 771), (228, 97, 776),
      (229, 97, 778), (231, 99, 807),
      (232, 101, 768), (233, 101, 769), (234, 101, 770), (235, 101, 776),
      (236, 105, 768), (237, 105, 769), (238, 105, 770), (239, 105, 776),
      (241, 110, 771),
      (242, 111, 768), (243, 111, 769), (244, 111, 770), (245, 111, 771), (246, 111, 776),
      (249, 117, 768), (250, 117, 769), (251, 117, 770), (252, 117, 776),
      (253, 121, 769), (255, 121, 776)]"

definition descomponer :: "nat \<Rightarrow> jsstring" where
  "descomponer c =
     (case map_of tablaNFD c of
        Some (b, m) \<Rightarrow> [b, m]
      | None \<Rightarrow>
          (if 192 \<le> c \<and> c \<le> 221 then
             (case map_of tablaNFD (c + 32) of Some (b, m) \<Rightarrow> [b - 32, m] | None \<Rightarrow> [c])
           else [c]))"

definition normalizeNFD :: "jsstring \<Rightarrow> jsstring" where
  "normalizeNFD s = concat (map descomponer s)"

text \<open>Lines 695-701; the expression removes U+0300 to U+036F.\<close>

definition normalizarTexto :: "jsstring \<Rightarrow> jsstring" where
  "normalizarTexto texto =
     trim (filter (\<lambda>c. \<not> (768 \<le> c \<and> c \<le> 879)) (normalizeNFD (toLowerCase texto)))"

text \<open>
  The four errors \<^verbatim>\<open>buscarCliente\<close> can end with: the three it throws itself, and the
  \<^verbatim>\<open>TypeError\<close> of \<^verbatim>\<open>clientes.length\<close> (line 647) when a successful answer has no
  \<^verbatim>\<open>clientes\<close>.
\<close>

datatype error_busqueda = NO_CONEXION | API_ERROR | SIN_CLIENTES | TypeError

text \<open>What it returns: one record, an array of records, or \<^verbatim>\<open>null\<close>.\<close>

datatype encontrado = Uno cliente | Varios "cliente list" | Ninguno

definition coincideParcial :: "jsstring \<Rightarrow> cliente \<Rightarrow> bool" where
  "coincideParcial busqueda c =
     (let nombre = normalizarTexto (c_nombre c)
      in includesStr nombre busqueda \<or> includesStr busqueda nombre)"

definition coincidePalabras :: "jsstring list \<Rightarrow> cliente \<Rightarrow> bool" where
  "coincidePalabras palabras c =
     (let nombre = normalizarTexto (c_nombre c)
      in list_all (\<lambda>p. includesStr nombre p) palabras)"

text \<open>Lines 631-690, given the answer of the registry to the request of line 635.\<close>

definition buscarCliente :: "respuesta_lista \<Rightarrow> jsstring \<Rightarrow> error_busqueda + encontrado" where
  "buscarCliente resp identificador =
     (case resp of
        ErrorRed \<Rightarrow> Inl NO_CONEXION
      | SinDatos \<Rightarrow> Inl API_ERROR
      | Datos success cl \<Rightarrow>
          if \<not> success then Inl API_ERROR
          else
            (case cl of
               None \<Rightarrow> Inl TypeError
             | Some clientes \<Rightarrow>
                 if length clientes = 0 then Inl SIN_CLIENTES
                 else if esIP identificador then
                   (case find (\<lambda>c. c_ip_address c = identificador) clientes of
                      Some c \<Rightarrow> Inr (Uno c)
                    | None \<Rightarrow> Inr Ninguno)
                 else
                   (let busqueda = normalizarTexto identificador
                    in case find (\<lambda>c. normalizarTexto (c_nombre c) = busqueda) clientes of
                         Some exacta \<Rightarrow> Inr (Uno exacta)
                       | None \<Rightarrow>
                           (let coincidencias = filter (coincideParcial busqueda) clientes
                            in if length coincidencias = 0 then
                                 (let palabras = splitEspacios busqueda;
                                      porPalabras = filter (coincidePalabras palabras) clientes
                                  in if length porPalabras = 1 then Inr (Uno (hd porPalabras))
                                     else if 1 < length porPalabras then Inr (Varios porPalabras)
                                     else Inr Ninguno)
                               else if length coincidencias = 1
                                 then Inr (Uno (hd coincidencias))
                               else Inr (Varios coincidencias)))))"

section \<open>Configuration\<close>

record config =
  GRUPO_ID :: jsstring
  PREFIJO :: jsstring
  METODOS_PAGO :: "jsstring list"

text \<open>Lines 24-38.\<close>

definition CONFIG :: config where
  "CONFIG =
     \<lparr>GRUPO_ID = js ''120363419809450940@g.us'',
      PREFIJO = js ''!'',
      METODOS_PAGO = [js ''efectivo'', js ''transferencia'', js ''deposito'', js ''tarjeta'']\<rparr>"

section \<open>\<^verbatim>\<open>procesarPago\<close>\<close>

text \<open>The variables of lines 193-196; \<^verbatim>\<open>monto\<close> starts as \<^verbatim>\<open>null\<close>.\<close>

record extraccion =
  monto :: "jsnum option"
  montoIndex :: int
  metodoPago :: jsstring
  referencia :: jsstring

definition extraccionInicial :: extraccion where
  "extraccionInicial =
     \<lparr>monto = None, montoIndex = - 1, metodoPago = js ''efectivo'', referencia = []\<rparr>"

text \<open>
  Line 211: \<^verbatim>\<open>parseFloat(args[i].replace('Q', '').replace('q', ''))\<close>. With a string
  pattern, \<^verbatim>\<open>replace\<close> removes the first occurrence only, wherever it is.
\<close>

definition numeroDe :: "jsstring \<Rightarrow> jsnum" where
  "numeroDe tok = parseFloat (remove1 113 (remove1 81 tok))"

text \<open>Line 212: \<^verbatim>\<open>!isNaN(num) && num > 0\<close>.\<close>

definition esMonto :: "jsnum \<Rightarrow> bool" where
  "esMonto num = (num \<noteq> NaN \<and> mayor num 0)"

text \<open>
  The loop of lines 199-217, \<^verbatim>\<open>for (let i = args.length - 1; i >= 1; i--)\<close>: the
  third argument is \<open>i\<close>. At \<open>i = 0\<close> the loop is over; \<^verbatim>\<open>continue\<close> goes on with
  \<open>i - 1\<close> and \<^verbatim>\<open>break\<close> returns.
\<close>

fun buscarMonto :: "config \<Rightarrow> jsstring list \<Rightarrow> nat \<Rightarrow> extraccion \<Rightarrow> extraccion" where
  "buscarMonto cfg args 0 st = st"
| "buscarMonto cfg args (Suc k) st =
     (let tok = args ! Suc k
      in if startsWith (toLowerCase tok) (js ''ref:'') then
           buscarMonto cfg args k (st\<lparr>referencia := drop 4 tok\<rparr>)
         else if toLowerCase tok \<in> set (METODOS_PAGO cfg) then
           buscarMonto cfg args k (st\<lparr>metodoPago := toLowerCase tok\<rparr>)
         else if esMonto (numeroDe tok) then
           st\<lparr>monto := Some (numeroDe tok), montoIndex := int (Suc k)\<rparr>
         else buscarMonto cfg args k st)"

text \<open>
  Lines 232-245 and 317-328, the same in both handlers: what is replied when
  \<^verbatim>\<open>buscarCliente\<close> throws.
\<close>

fun respuestaError :: "error_busqueda \<Rightarrow> respuesta" where
  "respuestaError NO_CONEXION = R_NoConexion"
| "respuestaError SIN_CLIENTES = R_SinClientes"
| "respuestaError API_ERROR = R_ErrorAPI"
| "respuestaError TypeError = R_ErrorAPI"

text \<open>
  Lines 269-302, for the client \<^verbatim>\<open>clienteData\<close>; \<open>None\<close> is \<^verbatim>\<open>undefined\<close>, on which
  reading \<^verbatim>\<open>clienteData.id\<close> throws inside the \<^verbatim>\<open>try\<close>, before any request.
\<close>

definition enviarPago ::
  "registro \<Rightarrow> cliente option \<Rightarrow> jsnum \<Rightarrow> jsstring \<Rightarrow> jsstring \<Rightarrow> evento list" where
  "enviarPago reg clienteData m metodo ref =
     (case clienteData of
        None \<Rightarrow> [Responde R_PagoSinSistema]
      | Some c \<Rightarrow>
          (let cuerpo = \<lparr>p_cliente_id = c_id c, p_monto = m,
                         p_metodo_pago = metodo, p_referencia = ref\<rparr>
           in case registrarPago reg cuerpo of
                Resuelta ok err \<Rightarrow>
                  if ok then [PidePago cuerpo, Responde (R_PagoRegistrado c m metodo ref)]
                  else [PidePago cuerpo, Responde (R_PagoError err)]
              | _ \<Rightarrow> [PidePago cuerpo, Responde R_PagoSinSistema]))"

text \<open>Line 225: \<^verbatim>\<open>args.slice(0, montoIndex).join(' ')\<close>.\<close>

definition identificadorDe :: "jsstring list \<Rightarrow> extraccion \<Rightarrow> jsstring" where
  "identificadorDe args st = unir (js '' '') (take (nat (montoIndex st)) args)"

text \<open>Lines 227-267: the client is looked up and the payment sent.\<close>

definition pagarA ::
  "registro \<Rightarrow> jsstring list \<Rightarrow> jsnum \<Rightarrow> extraccion \<Rightarrow> ejecucion" where
  "pagarA reg args m st =
     (let identificador = identificadorDe args st
      in if identificador = [] then Termina [Responde R_PagoSinIdentificador]
         else
           (case buscarCliente (listar reg) identificador of
              Inl e \<Rightarrow> Termina [PideLista, Responde (respuestaError e)]
            | Inr Ninguno \<Rightarrow> Termina [PideLista, Responde (R_PagoNoEncontrado identificador)]
            | Inr (Varios cs) \<Rightarrow>
                if 1 < length cs then Termina [PideLista, Responde (R_PagoVarios (take 5 cs))]
                else
                  Termina (PideLista #
                    enviarPago reg (case cs of [] \<Rightarrow> None | c # _ \<Rightarrow> Some c) m
                      (metodoPago st) (referencia st))
            | Inr (Uno c) \<Rightarrow>
                Termina (PideLista #
                  enviarPago reg (Some c) m (metodoPago st) (referencia st))))"

text \<open>
  Lines 177-303. \<^verbatim>\<open>!monto\<close> (line 219) holds for \<^verbatim>\<open>null\<close>, zero and \<open>NaN\<close>.
\<close>

definition procesarPago :: "config \<Rightarrow> registro \<Rightarrow> jsstring list \<Rightarrow> ejecucion" where
  "procesarPago cfg reg args =
     (if length args < 2 then Termina [Responde R_PagoFormato]
      else
        (let st = buscarMonto cfg args (length args - 1) extraccionInicial
         in case monto st of
              None \<Rightarrow> Termina [Responde R_PagoSinMonto]
            | Some m \<Rightarrow>
                if (m = NaN \<or> m = Fin 0) \<or> montoIndex st < 1
                then Termina [Responde R_PagoSinMonto]
                else pagarA reg args m st))"

section \<open>\<^verbatim>\<open>consultarCliente\<close>\<close>

text \<open>
  Lines 309-360. Reading \<^verbatim>\<open>c.estado\<close> (line 346) on the first element of an empty
  array would throw outside every \<^verbatim>\<open>try\<close> of the handler.
\<close>

definition consultarCliente :: "registro \<Rightarrow> jsstring list \<Rightarrow> ejecucion" where
  "consultarCliente reg args =
     (if length args < 1 then Termina [Responde R_ConsultaUso]
      else
        (let identificador = unir (js '' '') args
         in case buscarCliente (listar reg) identificador of
              Inl e \<Rightarrow> Termina [PideLista, Responde (respuestaError e)]
            | Inr Ninguno \<Rightarrow> Termina [PideLista, Responde (R_ConsultaNoEncontrado identificador)]
            | Inr (Varios cs) \<Rightarrow>
                if 1 < length cs then Termina [PideLista, Responde (R_ConsultaVarios (take 10 cs))]
                else
                  (case cs of
                     [] \<Rightarrow> Lanza [PideLista]
                   | c # _ \<Rightarrow> Termina [PideLista, Responde (R_ConsultaInfo c)])
            | Inr (Uno c) \<Rightarrow> Termina [PideLista, Responde (R_ConsultaInfo c)]))"

section \<open>\<^verbatim>\<open>registrarCliente\<close>\<close>

text \<open>
  Lines 484-493: the lookup that decides between update and create. Every failure
  (a rejected request, an answer without data, without success or without
  \<^verbatim>\<open>clientes\<close>) leaves \<^verbatim>\<open>clienteExistente\<close> at \<^verbatim>\<open>null\<close>.
\<close>

definition clienteExistente :: "respuesta_lista \<Rightarrow> jsstring \<Rightarrow> cliente option" where
  "clienteExistente resp ipBuscada =
     (case resp of
        Datos success (Some clientes) \<Rightarrow>
          if success then find (\<lambda>c. c_ip_address c = ipBuscada) clientes else None
      | _ \<Rightarrow> None)"

text \<open>Lines 498-509.\<close>

definition datosActualizar :: "jsstring \<Rightarrow> campos_cliente \<Rightarrow> datos_actualizar" where
  "datosActualizar nombre st =
     \<lparr>u_nombre = nombre,
      u_telefono = (if telefono st \<noteq> [] then Some (telefono st) else None),
      u_direccion = (if direccion st \<noteq> [] then Some (direccion st) else None),
      u_plan = plan st,
      u_velocidad_download = velocidadDown st,
      u_velocidad_upload = velocidadUp st,
      u_precio_mensual = (if mayor (precio st) 0 then Some (precio st) else None),
      u_dia_corte = diaCorteFinal st\<rparr>"

text \<open>\<^verbatim>\<open>x || ''\<close> on an optional text.\<close>

fun oVacio :: "jsstring option \<Rightarrow> jsstring" where
  "oVacio None = []"
| "oVacio (Some t) = t"

text \<open>Lines 515-521, in the order of the source.\<close>

definition cambiosDe :: "cliente \<Rightarrow> jsstring \<Rightarrow> campos_cliente \<Rightarrow> cambio list" where
  "cambiosDe ex nombre st =
     (if nombre \<noteq> c_nombre ex then [CambioNombre (c_nombre ex) nombre] else [])
     @ (if telefono st \<noteq> [] \<and> telefono st \<noteq> oVacio (c_telefono ex)
        then [CambioTelefono (c_telefono ex) (telefono st)] else [])
     @ (if direccion st \<noteq> [] \<and> direccion st \<noteq> oVacio (c_direccion ex)
        then [CambioDireccion (c_direccion ex) (direccion st)] else [])
     @ (if plan st \<noteq> js ''Basico 7Mbps'' \<and> plan st \<noteq> c_plan ex
        then [CambioPlan (c_plan ex) (plan st)] else [])
     @ (if mayor (precio st) 0 \<and> \<not> igualEstricto (precio st) (c_precio_mensual ex)
        then [CambioPrecio (c_precio_mensual ex) (precio st)] else [])
     @ (if \<not> igualEstricto (diaCorteFinal st) (c_dia_corte ex)
        then [CambioDiaCorte (c_dia_corte ex) (diaCorteFinal st)] else [])"

definition textoCambios :: "cambio list \<Rightarrow> texto_cambios" where
  "textoCambios cambios = (if 0 < length cambios then ListaCambios cambios else SinCambiosDetectados)"

text \<open>Lines 496-537 with the \<^verbatim>\<open>catch\<close> of lines 569-576.\<close>

definition actualizarCliente ::
  "registro \<Rightarrow> cliente \<Rightarrow> jsstring \<Rightarrow> campos_cliente \<Rightarrow> evento list" where
  "actualizarCliente reg ex nombre st =
     (let datos = datosActualizar nombre st
      in case actualizar reg (c_id ex) datos of
           Resuelta ok err \<Rightarrow>
             if ok then
               [PideActualizar (c_id ex) datos,
                Responde (R_ClienteActualizado nombre (ip st)
                            (textoCambios (cambiosDe ex nombre st)))]
             else [PideActualizar (c_id ex) datos, Responde (R_ClienteErrorActualizar err)]
         | FalloConRespuesta err \<Rightarrow>
             [PideActualizar (c_id ex) datos, Responde (R_ClienteErrorRespuesta err)]
         | FalloSinRespuesta \<Rightarrow> [PideActualizar (c_id ex) datos, Responde R_ClienteSinSistema])"

text \<open>Lines 538-568 with the same \<^verbatim>\<open>catch\<close>.\<close>

definition datosCrear :: "jsstring \<Rightarrow> campos_cliente \<Rightarrow> datos_crear" where
  "datosCrear nombre st =
     \<lparr>n_nombre = nombre, n_ip_address = ip st, n_plan = plan st, n_telefono = telefono st,
      n_direccion = direccion st, n_dia_corte = diaCorteFinal st, n_precio_mensual = precio st,
      n_velocidad_download = velocidadDown st, n_velocidad_upload = velocidadUp st\<rparr>"

definition crearCliente :: "registro \<Rightarrow> jsstring \<Rightarrow> campos_cliente \<Rightarrow> evento list" where
  "crearCliente reg nombre st =
     (let datos = datosCrear nombre st
      in case crear reg datos of
           Resuelta ok err \<Rightarrow>
             if ok then [PideCrear datos, Responde (R_ClienteRegistrado nombre st)]
             else [PideCrear datos, Responde (R_ClienteError err)]
         | FalloConRespuesta err \<Rightarrow> [PideCrear datos, Responde (R_ClienteErrorRespuesta err)]
         | FalloSinRespuesta \<Rightarrow> [PideCrear datos, Responde R_ClienteSinSistema])"

text \<open>Lines 373-577. The first segment is always the name.\<close>

definition registrarCliente :: "registro \<Rightarrow> jsstring list \<Rightarrow> ejecucion" where
  "registrarCliente reg args =
     (let campos = separarCampos args
      in case campos of
           nombre # camposRestantes \<Rightarrow>
             if length campos < 2 then Termina [Responde R_ClienteFormato]
             else
               (let st = clasificar camposRestantes
                in if nombre = [] then Termina [Responde R_ClienteSinNombre]
                   else if ip st = [] then Termina [Responde R_ClienteSinIP]
                   else
                     (case clienteExistente (listar reg) (ip st) of
                        Some ex \<Rightarrow> Termina (PideLista # actualizarCliente reg ex nombre st)
                      | None \<Rightarrow> Termina (PideLista # crearCliente reg nombre st)))
         | [] \<Rightarrow> Termina [Responde R_ClienteFormato])"

section \<open>The handler of \<^verbatim>\<open>message_create\<close>\<close>

record mensaje =
  m_from :: jsstring
  m_body :: jsstring

text \<open>
  The four handlers the \<^verbatim>\<open>switch\<close> of lines 142-160 calls, as functions of the
  arguments \<^verbatim>\<open>partes.slice(1)\<close>.
\<close>

record manejadores =
  h_pago :: "jsstring list \<Rightarrow> ejecucion"
  h_cliente :: "jsstring list \<Rightarrow> ejecucion"
  h_consulta :: "jsstring list \<Rightarrow> ejecucion"
  h_ayuda :: ejecucion

definition despachar :: "manejadores \<Rightarrow> jsstring list \<Rightarrow> ejecucion" where
  "despachar h partes =
     (let comando = (case partes of [] \<Rightarrow> None | p # _ \<Rightarrow> Some (toLowerCase p))
      in if comando = Some (js ''pago'') then h_pago h (drop 1 partes)
         else if comando = Some (js ''cliente'') then h_cliente h (drop 1 partes)
         else if comando = Some (js ''consulta'') then h_consulta h (drop 1 partes)
         else if comando = Some (js ''ayuda'') \<or> comando = Some (js ''help'') then h_ayuda h
         else Termina [Responde R_ComandoNoReconocido])"

text \<open>The \<^verbatim>\<open>try\<close> of line 129 with its \<^verbatim>\<open>catch\<close> (lines 161-164).\<close>

fun capturar :: "ejecucion \<Rightarrow> ejecucion" where
  "capturar (Termina es) = Termina es"
| "capturar (Lanza es) = Termina (es @ [Responde R_ErrorInterno])"

text \<open>Lines 128-165, for any four handlers.\<close>

definition alRecibir :: "config \<Rightarrow> manejadores \<Rightarrow> mensaje \<Rightarrow> ejecucion" where
  "alRecibir cfg h message =
     (let chatId = m_from message
      in if GRUPO_ID cfg \<noteq> [] \<and> chatId \<noteq> GRUPO_ID cfg then Termina []
         else
           (let texto = trim (m_body message)
            in if \<not> startsWith texto (PREFIJO cfg) then Termina []
               else capturar (despachar h (splitEspacios (trim (drop 1 texto))))))"

text \<open>The handlers of the bot (\<^verbatim>\<open>mostrarAyuda\<close>, lines 582-623, sends one text).\<close>

definition manejadoresBot :: "config \<Rightarrow> registro \<Rightarrow> manejadores" where
  "manejadoresBot cfg reg =
     \<lparr>h_pago = procesarPago cfg reg, h_cliente = registrarCliente reg,
      h_consulta = consultarCliente reg, h_ayuda = Termina [Responde R_Ayuda]\<rparr>"

definition on_message_create :: "config \<Rightarrow> registro \<Rightarrow> mensaje \<Rightarrow> ejecucion" where
  "on_message_create cfg reg message = alRecibir cfg (manejadoresBot cfg reg) message"

section \<open>The statements of the specification that are compared with the code\<close>

text \<open>
  The telephone rule as the specification words it: spaces, hyphens and parentheses
  are removed, then one leading plus sign; what is left is eight or more digits.
\<close>

definition quitarSegunSpec :: "jsstring \<Rightarrow> jsstring" where
  "quitarSegunSpec campo =
     (let s = filter (\<lambda>c. \<not> (esEspacio c \<or> c = 45 \<or> c = 40 \<or> c = 41)) campo
      in case s of [] \<Rightarrow> [] | c # r \<Rightarrow> if c = 43 then r else s)"

definition esTelefonoSegunSpec :: "jsstring \<Rightarrow> bool" where
  "esTelefonoSegunSpec campo =
     (8 \<le> length (quitarSegunSpec campo) \<and> list_all esDigito (quitarSegunSpec campo))"

text \<open>The fields an update can resend, and the field a line of the report is about.\<close>

datatype campo_reenviado =
  F_nombre | F_telefono | F_direccion | F_plan | F_velocidad_download | F_velocidad_upload
| F_precio_mensual | F_dia_corte

fun campoDe :: "cambio \<Rightarrow> campo_reenviado" where
  "campoDe (CambioNombre _ _) = F_nombre"
| "campoDe (CambioTelefono _ _) = F_telefono"
| "campoDe (CambioDireccion _ _) = F_direccion"
| "campoDe (CambioPlan _ _) = F_plan"
| "campoDe (CambioPrecio _ _) = F_precio_mensual"
| "campoDe (CambioDiaCorte _ _) = F_dia_corte"

text \<open>
  The change report as the specification words it: every field that the update
  resends and whose new value differs from the stored one (texts compared as strings,
  price and day as numbers).
\<close>

definition cambiosSegunSpec :: "cliente \<Rightarrow> datos_actualizar \<Rightarrow> campo_reenviado list" where
  "cambiosSegunSpec ex d =
     (if u_nombre d \<noteq> c_nombre ex then [F_nombre] else [])
     @ (case u_telefono d of
          Some t \<Rightarrow> if t \<noteq> oVacio (c_telefono ex) then [F_telefono] else []
        | None \<Rightarrow> [])
     @ (case u_direccion d of
          Some t \<Rightarrow> if t \<noteq> oVacio (c_direccion ex) then [F_direccion] else []
        | None \<Rightarrow> [])
     @ (if u_plan d \<noteq> c_plan ex then [F_plan] else [])
     @ (if u_velocidad_download d \<noteq> c_velocidad_download ex then [F_velocidad_download] else [])
     @ (if u_velocidad_upload d \<noteq> c_velocidad_upload ex then [F_velocidad_upload] else [])
     @ (case u_precio_mensual d of
          Some v \<Rightarrow> if \<not> igualEstricto v (c_precio_mensual ex) then [F_precio_mensual] else []
        | None \<Rightarrow> [])
     @ (if \<not> igualEstricto (u_dia_corte d) (c_dia_corte ex) then [F_dia_corte] else [])"

text \<open>
  The payment method and the reference that a scan of the tokens \<open>toks\<close> (given from
  left to right, scanned from the right) leaves behind when none of them stops it: the
  leftmost token of each kind wins, \<open>d\<close> is the value before the scan.
\<close>

definition esRef :: "jsstring \<Rightarrow> bool" where
  "esRef tok = startsWith (toLowerCase tok) (js ''ref:'')"

definition esMetodo :: "config \<Rightarrow> jsstring \<Rightarrow> bool" where
  "esMetodo cfg tok = (toLowerCase tok \<in> set (METODOS_PAGO cfg))"

definition referenciaDe :: "jsstring list \<Rightarrow> jsstring \<Rightarrow> jsstring" where
  "referenciaDe toks d = (case filter esRef toks of [] \<Rightarrow> d | r # _ \<Rightarrow> drop 4 r)"

definition metodoDe :: "config \<Rightarrow> jsstring list \<Rightarrow> jsstring \<Rightarrow> jsstring" where
  "metodoDe cfg toks d =
     (case filter (\<lambda>t. \<not> esRef t \<and> esMetodo cfg t) toks of
        [] \<Rightarrow> d
      | m # _ \<Rightarrow> toLowerCase m)"

text \<open>
  The token at which the loop of \<^verbatim>\<open>procesarPago\<close> stops: it is not a reference, not a
  payment method, and its number is a positive amount (the order of the three tests of
  lines 201-216).
\<close>

definition detiene :: "config \<Rightarrow> jsstring \<Rightarrow> bool" where
  "detiene cfg tok = (\<not> esRef tok \<and> \<not> esMetodo cfg tok \<and> esMonto (numeroDe tok))"

section \<open>Concrete inputs\<close>

definition clientePremium :: cliente where
  "clientePremium =
     \<lparr>c_id = 7, c_nombre = js ''Juan Perez'', c_ip_address = js ''172.16.1.50'',
      c_plan = js ''Premium 20Mbps'', c_velocidad_download = js ''20M'',
      c_velocidad_upload = js ''20M'', c_telefono = Some (js ''32472792''),
      c_direccion = Some (js ''Aldea Chinaha''), c_dia_corte = Fin 1,
      c_precio_mensual = Fin 200, c_estado = js ''activo''\<rparr>"

definition clienteAna :: cliente where
  "clienteAna =
     \<lparr>c_id = 8, c_nombre = js ''Ana'', c_ip_address = js ''172.16.1.51'',
      c_plan = js ''Basico 7Mbps'', c_velocidad_download = js ''7M'',
      c_velocidad_upload = js ''7M'', c_telefono = None, c_direccion = None,
      c_dia_corte = Fin 1, c_precio_mensual = Fin 100, c_estado = js ''activo''\<rparr>"

definition clienteAnaMaria :: cliente where
  "clienteAnaMaria =
     \<lparr>c_id = 9, c_nombre = js ''Ana Maria'', c_ip_address = js ''172.16.1.52'',
      c_plan = js ''Basico 7Mbps'', c_velocidad_download = js ''7M'',
      c_velocidad_upload = js ''7M'', c_telefono = None, c_direccion = None,
      c_dia_corte = Fin 1, c_precio_mensual = Fin 100, c_estado = js ''cortado''\<rparr>"

text \<open>A registry that answers with the given roster and accepts every mutation.\<close>

definition registroCon :: "cliente list \<Rightarrow> registro" where
  "registroCon clientes =
     \<lparr>listar = Datos True (Some clientes),
      registrarPago = (\<lambda>_. Resuelta True None),
      actualizar = (\<lambda>_ _. Resuelta True None),
      crear = (\<lambda>_. Resuelta True None)\<rparr>"

section \<open>Evaluation\<close>

text \<open>The definitions that the simplifier unfolds to evaluate a concrete input.\<close>

lemmas evaluar_texto =
  js_def esDigito_def esEspacio_def trim_def startsWith_def toLowerCase_def minuscula_def
  canonRegex_def includes_i_def startsWith_i_def

lemmas evaluar_numero =
  redondear_def igualEstricto_def valorDigitos_def exponente_def escalar_def parseFloat_def

lemmas evaluar_clasificador =
  grupoIP_def esIP_def palabrasPlan_def esPlan_def matchVelAqui_def quitarSeparadores_def
  esTelefono_def esNumero_def esLetra_def tieneLetra_def planPorDefecto_def
  camposIniciales_def asignarNumero_def clasificarCampo_def clasificar_def separarCampos_def

lemmas evaluar_bot =
  CONFIG_def extraccionInicial_def numeroDe_def esMonto_def enviarPago_def identificadorDe_def
  pagarA_def
  procesarPago_def consultarCliente_def clienteExistente_def datosActualizar_def
  cambiosDe_def textoCambios_def actualizarCliente_def datosCrear_def crearCliente_def
  registrarCliente_def despachar_def alRecibir_def manejadoresBot_def on_message_create_def

lemmas evaluar_busqueda =
  tablaNFD_def descomponer_def normalizeNFD_def normalizarTexto_def coincideParcial_def
  coincidePalabras_def buscarCliente_def

lemmas evaluar_ejemplos =
  clientePremium_def clienteAna_def clienteAnaMaria_def registroCon_def

lemmas evaluar_spec =
  quitarSegunSpec_def esTelefonoSegunSpec_def cambiosSegunSpec_def esRef_def esMetodo_def
  referenciaDe_def metodoDe_def detiene_def

section \<open>The numeric rule of the classifier\<close>

lemma asignarNumero_dia:
  "mayorIgual num 1 \<Longrightarrow> menorIgual num 28 \<Longrightarrow>
   asignarNumero st num = (if diaCorteFinal st = Fin 1 then st\<lparr>diaCorteFinal := num\<rparr> else st)"
  by (cases num) (auto simp: asignarNumero_def igualEstricto_def)

text \<open>
  C1, as stated, fails: for the segments \<^verbatim>\<open>"60"\<close> then \<^verbatim>\<open>"10"\<close> the billing day does
  not stay at its default. When \<^verbatim>\<open>"10"\<close> is read, the first test fails because the
  price is already 60, the test \<^verbatim>\<open>num >= 50\<close> fails, and the third branch (line 451),
  which asks only that the day is still 1, assigns 10.
\<close>

theorem clasificador_orden_counterexample:
  "\<not> (precio (clasificar [js ''60'', js ''10'']) = Fin 60
      \<and> diaCorteFinal (clasificar [js ''60'', js ''10'']) = Fin 1)"
  by (simp add: evaluar_texto evaluar_numero evaluar_clasificador)

text \<open>
  C1, amended: the segments \<^verbatim>\<open>"10"\<close>, \<^verbatim>\<open>"60"\<close> give day 10 and price 60 in either
  order. In general a segment that reaches the numeric rule with a value in [1, 28] is
  assigned to the billing day exactly when the day is still at its default 1, whatever
  the price is; otherwise it is dropped and the state is unchanged.
\<close>

theorem clasificador_numeros:
  "diaCorteFinal (clasificar [js ''10'', js ''60'']) = Fin 10
   \<and> precio (clasificar [js ''10'', js ''60'']) = Fin 60
   \<and> diaCorteFinal (clasificar [js ''60'', js ''10'']) = Fin 10
   \<and> precio (clasificar [js ''60'', js ''10'']) = Fin 60
   \<and> (\<forall>st campo.
         \<not> esIP campo \<and> \<not> esPlan campo \<and> \<not> esTelefono campo \<and> esNumero campo
         \<and> mayorIgual (parseFloat campo) 1 \<and> menorIgual (parseFloat campo) 28 \<longrightarrow>
         clasificarCampo st campo =
           (if diaCorteFinal st = Fin 1 then st\<lparr>diaCorteFinal := parseFloat campo\<rparr> else st))"
proof -
  have a: "clasificar [js ''10'', js ''60'']
             = camposIniciales\<lparr>diaCorteFinal := Fin 10, precio := Fin 60\<rparr>"
    by (simp add: evaluar_texto evaluar_numero evaluar_clasificador)
  have b: "clasificar [js ''60'', js ''10'']
             = camposIniciales\<lparr>diaCorteFinal := Fin 10, precio := Fin 60\<rparr>"
    by (simp add: evaluar_texto evaluar_numero evaluar_clasificador)
  have c: "clasificarCampo st campo =
           (if diaCorteFinal st = Fin 1 then st\<lparr>diaCorteFinal := parseFloat campo\<rparr> else st)"
    if "\<not> esIP campo" "\<not> esPlan campo" "\<not> esTelefono campo" "esNumero campo"
       "mayorIgual (parseFloat campo) 1" "menorIgual (parseFloat campo) 28" for st campo
    using that by (simp add: clasificarCampo_def asignarNumero_dia)
  from a b c show ?thesis by simp
qed

theorem clasificador_numeros_witness:
  "\<not> esIP (js ''10'') \<and> \<not> esPlan (js ''10'') \<and> \<not> esTelefono (js ''10'') \<and> esNumero (js ''10'')
   \<and> mayorIgual (parseFloat (js ''10'')) 1 \<and> menorIgual (parseFloat (js ''10'')) 28
   \<and> clasificarCampo (camposIniciales\<lparr>precio := Fin 60\<rparr>) (js ''10'')
       = camposIniciales\<lparr>precio := Fin 60, diaCorteFinal := Fin 10\<rparr>
   \<and> clasificarCampo (camposIniciales\<lparr>diaCorteFinal := Fin 15\<rparr>) (js ''10'')
       = camposIniciales\<lparr>diaCorteFinal := Fin 15\<rparr>"
proof -
  have h: "\<not> esIP (js ''10'') \<and> \<not> esPlan (js ''10'') \<and> \<not> esTelefono (js ''10'')
     \<and> esNumero (js ''10'')
     \<and> mayorIgual (parseFloat (js ''10'')) 1 \<and> menorIgual (parseFloat (js ''10'')) 28"
    by (simp add: evaluar_texto evaluar_numero evaluar_clasificador)
  have p: "parseFloat (js ''10'') = Fin 10"
    by (simp add: evaluar_texto evaluar_numero)
  from clasificador_numeros have g: "\<And>st. clasificarCampo st (js ''10'') =
           (if diaCorteFinal st = Fin 1 then st\<lparr>diaCorteFinal := parseFloat (js ''10'')\<rparr> else st)"
    using h by blast
  show ?thesis
    using h p g [of "camposIniciales\<lparr>precio := Fin 60\<rparr>"]
      g [of "camposIniciales\<lparr>diaCorteFinal := Fin 15\<rparr>"]
    by (simp add: camposIniciales_def)
qed

section \<open>The telephone rule of the classifier\<close>

text \<open>
  C3, as stated, fails: \<^verbatim>\<open>(502) 3247-2792\<close> is a telephone by the rule of the
  specification (parentheses removed, eleven digits left), but the expression of line
  432 removes only hyphens, white space and plus signs, the parentheses stay, and the
  segment matches no rule at all: it is dropped.
\<close>

theorem telefono_counterexample:
  "\<not> esIP (js ''(502) 3247-2792'') \<and> \<not> esPlan (js ''(502) 3247-2792'')
   \<and> esTelefonoSegunSpec (js ''(502) 3247-2792'')
   \<and> clasificarCampo camposIniciales (js ''(502) 3247-2792'') = camposIniciales"
  by (simp add: evaluar_texto evaluar_numero evaluar_clasificador evaluar_spec)

lemma telefono_sin_cambio:
  "\<not> esIP campo \<Longrightarrow> \<not> esPlan campo \<Longrightarrow> \<not> esTelefono campo \<Longrightarrow>
   telefono (clasificarCampo st campo) = telefono st"
  by (simp add: clasificarCampo_def asignarNumero_def)

text \<open>
  C3, amended: a segment that matched neither the IP rule nor the plan rule is
  classified as telefono (the step stores it in \<open>telefono\<close> and changes nothing else)
  if and only if, after removing every hyphen, every white space character and every
  plus sign, wherever they stand, what remains is a run of at least 8 digits.
  Parentheses are not removed.
\<close>

theorem regla_telefono:
  assumes "\<not> esIP campo" and "\<not> esPlan campo"
  shows "(\<forall>st. clasificarCampo st campo = st\<lparr>telefono := campo\<rparr>)
         \<longleftrightarrow> (8 \<le> length (filter (\<lambda>c. \<not> (c = 45 \<or> esEspacio c \<or> c = 43)) campo)
              \<and> list_all esDigito (filter (\<lambda>c. \<not> (c = 45 \<or> esEspacio c \<or> c = 43)) campo))"
proof
  assume a: "\<forall>st. clasificarCampo st campo = st\<lparr>telefono := campo\<rparr>"
  show "8 \<le> length (filter (\<lambda>c. \<not> (c = 45 \<or> esEspacio c \<or> c = 43)) campo)
        \<and> list_all esDigito (filter (\<lambda>c. \<not> (c = 45 \<or> esEspacio c \<or> c = 43)) campo)"
  proof (rule ccontr)
    assume "\<not> ?thesis"
    then have n: "\<not> esTelefono campo"
      by (simp add: esTelefono_def quitarSeparadores_def)
    let ?st = "camposIniciales\<lparr>telefono := 0 # campo\<rparr>"
    from a have "telefono (clasificarCampo ?st campo) = campo" by simp
    moreover from assms n have "telefono (clasificarCampo ?st campo) = 0 # campo"
      by (simp add: telefono_sin_cambio)
    ultimately show False by simp
  qed
next
  assume "8 \<le> length (filter (\<lambda>c. \<not> (c = 45 \<or> esEspacio c \<or> c = 43)) campo)
        \<and> list_all esDigito (filter (\<lambda>c. \<not> (c = 45 \<or> esEspacio c \<or> c = 43)) campo)"
  then have "esTelefono campo"
    by (simp add: esTelefono_def quitarSeparadores_def)
  with assms show "\<forall>st. clasificarCampo st campo = st\<lparr>telefono := campo\<rparr>"
    by (simp add: clasificarCampo_def)
qed

theorem regla_telefono_witness:
  "\<not> esIP (js ''+502 3247-2792'') \<and> \<not> esPlan (js ''+502 3247-2792'')
   \<and> clasificarCampo camposIniciales (js ''+502 3247-2792'')
       = camposIniciales\<lparr>telefono := js ''+502 3247-2792''\<rparr>
   \<and> \<not> esIP (js ''3247+2792'') \<and> \<not> esPlan (js ''3247+2792'')
   \<and> clasificarCampo camposIniciales (js ''3247+2792'')
       = camposIniciales\<lparr>telefono := js ''3247+2792''\<rparr>"
proof -
  have h1: "\<not> esIP (js ''+502 3247-2792'')" "\<not> esPlan (js ''+502 3247-2792'')"
    by (simp_all add: evaluar_texto evaluar_clasificador)
  have h2: "\<not> esIP (js ''3247+2792'')" "\<not> esPlan (js ''3247+2792'')"
    by (simp_all add: evaluar_texto evaluar_clasificador)
  have r1: "8 \<le> length (filter (\<lambda>c. \<not> (c = 45 \<or> esEspacio c \<or> c = 43)) (js ''+502 3247-2792''))
        \<and> list_all esDigito (filter (\<lambda>c. \<not> (c = 45 \<or> esEspacio c \<or> c = 43)) (js ''+502 3247-2792''))"
    by (simp add: evaluar_texto)
  have r2: "8 \<le> length (filter (\<lambda>c. \<not> (c = 45 \<or> esEspacio c \<or> c = 43)) (js ''3247+2792''))
        \<and> list_all esDigito (filter (\<lambda>c. \<not> (c = 45 \<or> esEspacio c \<or> c = 43)) (js ''3247+2792''))"
    by (simp add: evaluar_texto)
  from regla_telefono [OF h1] r1
  have g1: "clasificarCampo camposIniciales (js ''+502 3247-2792'')
       = camposIniciales\<lparr>telefono := js ''+502 3247-2792''\<rparr>" by blast
  from regla_telefono [OF h2] r2
  have g2: "clasificarCampo camposIniciales (js ''3247+2792'')
       = camposIniciales\<lparr>telefono := js ''3247+2792''\<rparr>" by blast
  from h1 h2 g1 g2 show ?thesis by blast
qed

section \<open>The change report of an update\<close>

text \<open>
  C2, as stated, fails: a command that gives only the name and the IP of a stored
  client resends the default plan and the default speeds, which differ from the stored
  \<^verbatim>\<open>Premium 20Mbps\<close> and \<^verbatim>\<open>20M\<close>, and the report says that nothing changed. The
  source never reports the speeds, and line 519 reports the plan only when it is not
  the literal \<^verbatim>\<open>'Basico 7Mbps'\<close>.
\<close>

theorem informe_cambios_counterexample:
  "registrarCliente (registroCon [clientePremium]) [js ''Juan'', js ''Perez'', js ''/'', js ''172.16.1.50'']
     = Termina [PideLista,
         PideActualizar 7 (datosActualizar (js ''Juan Perez'') (clasificar [js ''172.16.1.50''])),
         Responde (R_ClienteActualizado (js ''Juan Perez'') (js ''172.16.1.50'') SinCambiosDetectados)]
   \<and> cambiosSegunSpec clientePremium
         (datosActualizar (js ''Juan Perez'') (clasificar [js ''172.16.1.50'']))
       = [F_plan, F_velocidad_download, F_velocidad_upload]"
  by (simp add: evaluar_texto evaluar_numero evaluar_clasificador evaluar_spec evaluar_bot evaluar_ejemplos)

lemma campos_cambiosDe:
  "map campoDe (cambiosDe ex nombre st) =
     filter (\<lambda>f. f \<noteq> F_velocidad_download \<and> f \<noteq> F_velocidad_upload
                 \<and> (f = F_plan \<longrightarrow> plan st \<noteq> js ''Basico 7Mbps''))
       (cambiosSegunSpec ex (datosActualizar nombre st))"
  by (simp add: cambiosDe_def cambiosSegunSpec_def datosActualizar_def)

lemma sin_cambios:
  "cambiosSegunSpec ex (datosActualizar nombre st) = [] \<Longrightarrow>
   textoCambios (cambiosDe ex nombre st) = SinCambiosDetectados"
proof -
  assume "cambiosSegunSpec ex (datosActualizar nombre st) = []"
  then have "map campoDe (cambiosDe ex nombre st) = []"
    by (simp only: campos_cambiosDe filter.simps)
  then show ?thesis by (simp add: textoCambios_def)
qed

lemma registrarCliente_actualiza:
  assumes "separarCampos args = nombre # restantes" and "restantes \<noteq> []" and "nombre \<noteq> []"
    and "ip (clasificar restantes) \<noteq> []"
    and "clienteExistente (listar reg) (ip (clasificar restantes)) = Some ex"
  shows "registrarCliente reg args
           = Termina (PideLista # actualizarCliente reg ex nombre (clasificar restantes))"
  using assms by (cases restantes) (simp_all add: registrarCliente_def Let_def)

text \<open>
  C2, amended: for every update of an existing client (found by the exact IP lookup)
  that the registry accepts, the report lists exactly those resent fields among
  nombre, telefono, direccion, plan, precio_mensual and dia_corte whose new value
  differs from the stored one, the plan only when the classified plan is not the
  literal \<^verbatim>\<open>'Basico 7Mbps'\<close>; the two speeds are resent but never listed. The reply
  carries these lines whenever there is one, and \<^verbatim>\<open>_Sin cambios detectados_\<close>
  exactly when there is none; in particular that is the report when no resent field
  differs from the stored record.
\<close>

theorem informe_cambios:
  assumes "separarCampos args = nombre # restantes" and "restantes \<noteq> []" and "nombre \<noteq> []"
    and "st = clasificar restantes" and "ip st \<noteq> []"
    and "clienteExistente (listar reg) (ip st) = Some ex"
    and "actualizar reg (c_id ex) (datosActualizar nombre st) = Resuelta True err"
  shows "registrarCliente reg args
           = Termina [PideLista, PideActualizar (c_id ex) (datosActualizar nombre st),
               Responde (R_ClienteActualizado nombre (ip st)
                           (textoCambios (cambiosDe ex nombre st)))]
         \<and> map campoDe (cambiosDe ex nombre st)
             = filter (\<lambda>f. f \<noteq> F_velocidad_download \<and> f \<noteq> F_velocidad_upload
                           \<and> (f = F_plan \<longrightarrow> plan st \<noteq> js ''Basico 7Mbps''))
                 (cambiosSegunSpec ex (datosActualizar nombre st))
         \<and> (cambiosSegunSpec ex (datosActualizar nombre st) = []
              \<longrightarrow> textoCambios (cambiosDe ex nombre st) = SinCambiosDetectados)
         \<and> (cambiosDe ex nombre st \<noteq> []
              \<longrightarrow> textoCambios (cambiosDe ex nombre st) = ListaCambios (cambiosDe ex nombre st))
         \<and> (cambiosDe ex nombre st = []
              \<longrightarrow> textoCambios (cambiosDe ex nombre st) = SinCambiosDetectados)"
proof -
  have "registrarCliente reg args = Termina (PideLista # actualizarCliente reg ex nombre st)"
    using assms(1-6) registrarCliente_actualiza by simp
  then have a: "registrarCliente reg args
           = Termina [PideLista, PideActualizar (c_id ex) (datosActualizar nombre st),
               Responde (R_ClienteActualizado nombre (ip st)
                           (textoCambios (cambiosDe ex nombre st)))]"
    using assms(7) by (simp add: actualizarCliente_def Let_def)
  have l: "textoCambios (cambiosDe ex nombre st) = ListaCambios (cambiosDe ex nombre st)"
    if "cambiosDe ex nombre st \<noteq> []"
    using that by (simp add: textoCambios_def)
  have n: "textoCambios (cambiosDe ex nombre st) = SinCambiosDetectados"
    if "cambiosDe ex nombre st = []"
    using that by (simp add: textoCambios_def)
  show ?thesis using a campos_cambiosDe sin_cambios l n by blast
qed

theorem informe_cambios_witness:
  "registrarCliente (registroCon [clientePremium])
     [js ''Juan'', js ''Perez'', js ''/'', js ''172.16.1.50'', js ''/'', js ''32472792'', js ''/'',
      js ''Aldea'', js ''Chinaha'', js ''/200/'', js ''Premium'', js ''20Mbps'']
   = Termina [PideLista,
       PideActualizar 7
         \<lparr>u_nombre = js ''Juan Perez'', u_telefono = Some (js ''32472792''),
          u_direccion = Some (js ''Aldea Chinaha''), u_plan = js ''Premium 20Mbps'',
          u_velocidad_download = js ''20M'', u_velocidad_upload = js ''20M'',
          u_precio_mensual = Some (Fin 200), u_dia_corte = Fin 1\<rparr>,
       Responde (R_ClienteActualizado (js ''Juan Perez'') (js ''172.16.1.50'')
                   SinCambiosDetectados)]
   \<and> registrarCliente (registroCon [clientePremium])
       [js ''Juan'', js ''Perez'', js ''/'', js ''172.16.1.50'', js ''/250/15'']
     = Termina [PideLista,
         PideActualizar 7
           \<lparr>u_nombre = js ''Juan Perez'', u_telefono = None, u_direccion = None,
            u_plan = js ''Basico 7Mbps'', u_velocidad_download = js ''7M'',
            u_velocidad_upload = js ''7M'', u_precio_mensual = Some (Fin 250),
            u_dia_corte = Fin 15\<rparr>,
         Responde (R_ClienteActualizado (js ''Juan Perez'') (js ''172.16.1.50'')
                     (ListaCambios [CambioPrecio (Fin 200) (Fin 250),
                                    CambioDiaCorte (Fin 1) (Fin 15)]))]"
proof -
  let ?args = "[js ''Juan'', js ''Perez'', js ''/'', js ''172.16.1.50'', js ''/'', js ''32472792'',
      js ''/'', js ''Aldea'', js ''Chinaha'', js ''/200/'', js ''Premium'', js ''20Mbps'']"
  let ?rest = "[js ''172.16.1.50'', js ''32472792'', js ''Aldea Chinaha'', js ''200'',
      js ''Premium 20Mbps'']"
  let ?st = "\<lparr>ip = js ''172.16.1.50'', plan = js ''Premium 20Mbps'', telefono = js ''32472792'',
      direccion = js ''Aldea Chinaha'', diaCorteFinal = Fin 1, precio = Fin 200,
      velocidadDown = js ''20M'', velocidadUp = js ''20M''\<rparr>"
  let ?reg = "registroCon [clientePremium]"
  have h1: "separarCampos ?args = js ''Juan Perez'' # ?rest"
    by (simp add: evaluar_texto separarCampos_def)
  have h2: "?rest \<noteq> []" by simp
  have h3: "js ''Juan Perez'' \<noteq> []" by (simp add: js_def)
  have h4: "?st = clasificar ?rest"
    by (simp add: evaluar_texto evaluar_numero evaluar_clasificador)
  have h5: "ip ?st \<noteq> []" by (simp add: js_def)
  have h6: "clienteExistente (listar ?reg) (ip ?st) = Some clientePremium"
    by (simp add: clienteExistente_def registroCon_def clientePremium_def js_def)
  have h7: "actualizar ?reg (c_id clientePremium)
              (datosActualizar (js ''Juan Perez'') ?st) = Resuelta True None"
    by (simp add: registroCon_def)
  have e: "cambiosSegunSpec clientePremium (datosActualizar (js ''Juan Perez'') ?st) = []"
    by (simp add: cambiosSegunSpec_def datosActualizar_def clientePremium_def js_def
        igualEstricto_def)
  have d: "datosActualizar (js ''Juan Perez'') ?st =
         \<lparr>u_nombre = js ''Juan Perez'', u_telefono = Some (js ''32472792''),
          u_direccion = Some (js ''Aldea Chinaha''), u_plan = js ''Premium 20Mbps'',
          u_velocidad_download = js ''20M'', u_velocidad_upload = js ''20M'',
          u_precio_mensual = Some (Fin 200), u_dia_corte = Fin 1\<rparr>"
    by (simp add: datosActualizar_def js_def)
  have i: "c_id clientePremium = 7" by (simp add: clientePremium_def)
  have ii: "ip ?st = js ''172.16.1.50''" by simp
  note t = informe_cambios [OF h1 h2 h3 h4 h5 h6 h7]
  have t1: "registrarCliente ?reg ?args
           = Termina [PideLista,
               PideActualizar (c_id clientePremium) (datosActualizar (js ''Juan Perez'') ?st),
               Responde (R_ClienteActualizado (js ''Juan Perez'') (ip ?st)
                           (textoCambios (cambiosDe clientePremium (js ''Juan Perez'') ?st)))]"
    by (rule t [THEN conjunct1])
  have t3: "cambiosSegunSpec clientePremium (datosActualizar (js ''Juan Perez'') ?st) = []
      \<longrightarrow> textoCambios (cambiosDe clientePremium (js ''Juan Perez'') ?st) = SinCambiosDetectados"
    by (rule t [THEN conjunct2, THEN conjunct2, THEN conjunct1])
  from t3 e
  have x: "textoCambios (cambiosDe clientePremium (js ''Juan Perez'') ?st) = SinCambiosDetectados"
    by (rule mp)
  have w1: "registrarCliente ?reg ?args
   = Termina [PideLista,
       PideActualizar 7
         \<lparr>u_nombre = js ''Juan Perez'', u_telefono = Some (js ''32472792''),
          u_direccion = Some (js ''Aldea Chinaha''), u_plan = js ''Premium 20Mbps'',
          u_velocidad_download = js ''20M'', u_velocidad_upload = js ''20M'',
          u_precio_mensual = Some (Fin 200), u_dia_corte = Fin 1\<rparr>,
       Responde (R_ClienteActualizado (js ''Juan Perez'') (js ''172.16.1.50'')
                   SinCambiosDetectados)]"
    using t1 by (simp only: x d i ii)
  let ?args2 = "[js ''Juan'', js ''Perez'', js ''/'', js ''172.16.1.50'', js ''/250/15'']"
  let ?rest2 = "[js ''172.16.1.50'', js ''250'', js ''15'']"
  let ?st2 = "\<lparr>ip = js ''172.16.1.50'', plan = js ''Basico 7Mbps'', telefono = [],
      direccion = [], diaCorteFinal = Fin 15, precio = Fin 250,
      velocidadDown = js ''7M'', velocidadUp = js ''7M''\<rparr>"
  have k1: "separarCampos ?args2 = js ''Juan Perez'' # ?rest2"
    by (simp add: evaluar_texto separarCampos_def)
  have k2: "?rest2 \<noteq> []" by simp
  have k4: "?st2 = clasificar ?rest2"
    by (simp add: evaluar_texto evaluar_numero evaluar_clasificador)
  have k5: "ip ?st2 \<noteq> []" by (simp add: js_def)
  have k6: "clienteExistente (listar ?reg) (ip ?st2) = Some clientePremium"
    by (simp add: clienteExistente_def registroCon_def clientePremium_def js_def)
  have k7: "actualizar ?reg (c_id clientePremium)
              (datosActualizar (js ''Juan Perez'') ?st2) = Resuelta True None"
    by (simp add: registroCon_def)
  have c2: "cambiosDe clientePremium (js ''Juan Perez'') ?st2
      = [CambioPrecio (Fin 200) (Fin 250), CambioDiaCorte (Fin 1) (Fin 15)]"
    by (simp add: cambiosDe_def clientePremium_def igualEstricto_def)
  have d2: "datosActualizar (js ''Juan Perez'') ?st2 =
           \<lparr>u_nombre = js ''Juan Perez'', u_telefono = None, u_direccion = None,
            u_plan = js ''Basico 7Mbps'', u_velocidad_download = js ''7M'',
            u_velocidad_upload = js ''7M'', u_precio_mensual = Some (Fin 250),
            u_dia_corte = Fin 15\<rparr>"
    by (simp add: datosActualizar_def)
  have ii2: "ip ?st2 = js ''172.16.1.50''" by simp
  note u = informe_cambios [OF k1 k2 h3 k4 k5 k6 k7]
  have u1: "registrarCliente ?reg ?args2
           = Termina [PideLista,
               PideActualizar (c_id clientePremium) (datosActualizar (js ''Juan Perez'') ?st2),
               Responde (R_ClienteActualizado (js ''Juan Perez'') (ip ?st2)
                           (textoCambios (cambiosDe clientePremium (js ''Juan Perez'') ?st2)))]"
    by (rule u [THEN conjunct1])
  have u4: "cambiosDe clientePremium (js ''Juan Perez'') ?st2 \<noteq> []
      \<longrightarrow> textoCambios (cambiosDe clientePremium (js ''Juan Perez'') ?st2)
            = ListaCambios (cambiosDe clientePremium (js ''Juan Perez'') ?st2)"
    by (rule u [THEN conjunct2, THEN conjunct2, THEN conjunct2, THEN conjunct1])
  have ne: "cambiosDe clientePremium (js ''Juan Perez'') ?st2 \<noteq> []"
    by (simp only: c2) simp
  from u4 ne
  have y: "textoCambios (cambiosDe clientePremium (js ''Juan Perez'') ?st2)
      = ListaCambios (cambiosDe clientePremium (js ''Juan Perez'') ?st2)"
    by (rule mp)
  have w2: "registrarCliente ?reg ?args2
     = Termina [PideLista,
         PideActualizar 7
           \<lparr>u_nombre = js ''Juan Perez'', u_telefono = None, u_direccion = None,
            u_plan = js ''Basico 7Mbps'', u_velocidad_download = js ''7M'',
            u_velocidad_upload = js ''7M'', u_precio_mensual = Some (Fin 250),
            u_dia_corte = Fin 15\<rparr>,
         Responde (R_ClienteActualizado (js ''Juan Perez'') (js ''172.16.1.50'')
                     (ListaCambios [CambioPrecio (Fin 200) (Fin 250),
                                    CambioDiaCorte (Fin 1) (Fin 15)]))]"
    using u1 by (simp only: y) (simp only: c2 d2 i ii2)
  from w1 w2 show ?thesis by (rule conjI)
qed

section \<open>The resolver: exact names first\<close>

text \<open>
  C5: when the query is free text (not a dotted quad) and the roster has a record
  whose normalized name equals the normalized query, \<^verbatim>\<open>buscarCliente\<close> returns one
  record with that normalized name, the one \<^verbatim>\<open>find\<close> reaches first, whatever the
  substring and per-word tests would match; it is the given record when no other
  record of the roster has the same normalized name.
\<close>

theorem nombre_exacto_primero:
  assumes "\<not> esIP identificador" and "r \<in> set clientes"
    and "normalizarTexto (c_nombre r) = normalizarTexto identificador"
  shows "\<exists>r'. buscarCliente (Datos True (Some clientes)) identificador = Inr (Uno r')
              \<and> r' \<in> set clientes
              \<and> normalizarTexto (c_nombre r') = normalizarTexto identificador
              \<and> find (\<lambda>c. normalizarTexto (c_nombre c) = normalizarTexto identificador) clientes
                  = Some r'
              \<and> ((\<forall>c\<in>set clientes.
                     normalizarTexto (c_nombre c) = normalizarTexto identificador \<longrightarrow> c = r)
                   \<longrightarrow> r' = r)"
proof -
  define P where "P = (\<lambda>c::cliente. normalizarTexto (c_nombre c) = normalizarTexto identificador)"
  from assms(2,3) have "find P clientes \<noteq> None"
    by (auto simp: find_None_iff P_def)
  then obtain r' where f: "find P clientes = Some r'" by auto
  then have m: "r' \<in> set clientes" and n: "P r'"
    by (auto simp: find_Some_iff)
  from assms(2) have ne: "clientes \<noteq> []" by auto
  have b: "buscarCliente (Datos True (Some clientes)) identificador = Inr (Uno r')"
    using assms(1) ne f by (simp add: buscarCliente_def Let_def P_def)
  from m n have u: "(\<forall>c\<in>set clientes. P c \<longrightarrow> c = r) \<longrightarrow> r' = r" by simp
  show ?thesis
  proof (intro exI conjI)
    show "buscarCliente (Datos True (Some clientes)) identificador = Inr (Uno r')" by (rule b)
    show "r' \<in> set clientes" by (rule m)
    show "normalizarTexto (c_nombre r') = normalizarTexto identificador" using n by (simp add: P_def)
    show "find (\<lambda>c. normalizarTexto (c_nombre c) = normalizarTexto identificador) clientes = Some r'"
      using f by (simp add: P_def)
    show "(\<forall>c\<in>set clientes.
             normalizarTexto (c_nombre c) = normalizarTexto identificador \<longrightarrow> c = r) \<longrightarrow> r' = r"
      using u by (simp add: P_def)
  qed
qed

theorem nombre_exacto_primero_witness:
  "\<not> esIP (js ''ANA'') \<and> clienteAna \<in> set [clienteAnaMaria, clienteAna]
   \<and> normalizarTexto (c_nombre clienteAna) = normalizarTexto (js ''ANA'')
   \<and> coincideParcial (normalizarTexto (js ''ANA'')) clienteAnaMaria
   \<and> buscarCliente (Datos True (Some [clienteAnaMaria, clienteAna])) (js ''ANA'')
       = Inr (Uno clienteAna)"
proof -
  have h1: "\<not> esIP (js ''ANA'')" by (simp add: evaluar_texto evaluar_clasificador)
  have h2: "clienteAna \<in> set [clienteAnaMaria, clienteAna]" by simp
  have n1: "normalizarTexto (js ''ANA'') = js ''ana''"
    by (simp add: evaluar_texto evaluar_busqueda)
  have n2: "normalizarTexto (c_nombre clienteAna) = js ''ana''"
    by (simp add: evaluar_texto evaluar_busqueda clienteAna_def)
  have n3: "normalizarTexto (c_nombre clienteAnaMaria) = js ''ana maria''"
    by (simp add: evaluar_texto evaluar_busqueda clienteAnaMaria_def)
  have h3: "normalizarTexto (c_nombre clienteAna) = normalizarTexto (js ''ANA'')"
    by (simp only: n1 n2)
  have p: "coincideParcial (normalizarTexto (js ''ANA'')) clienteAnaMaria"
    by (simp add: coincideParcial_def n1 n3) (simp add: js_def startsWith_def)
  have u: "\<forall>c\<in>set [clienteAnaMaria, clienteAna].
             normalizarTexto (c_nombre c) = normalizarTexto (js ''ANA'') \<longrightarrow> c = clienteAna"
    by (simp add: n1 n3) (simp add: js_def)
  from nombre_exacto_primero [OF h1 h2 h3] u
  have b: "buscarCliente (Datos True (Some [clienteAnaMaria, clienteAna])) (js ''ANA'')
       = Inr (Uno clienteAna)" by auto
  from h1 h2 h3 p b show ?thesis by simp
qed

section \<open>From the classifier to the resolver\<close>

lemma clasificarCampo_ip:
  "ip st = [] \<or> esIP (ip st) \<Longrightarrow> ip (clasificarCampo st campo) = [] \<or> esIP (ip (clasificarCampo st campo))"
  by (simp add: clasificarCampo_def asignarNumero_def split: option.splits)

lemma foldl_clasificarCampo_ip:
  "ip st = [] \<or> esIP (ip st) \<Longrightarrow>
   ip (foldl clasificarCampo st campos) = [] \<or> esIP (ip (foldl clasificarCampo st campos))"
proof (induction campos arbitrary: st)
  case Nil
  then show ?case by simp
next
  case (Cons campo campos)
  from Cons.prems have "ip (clasificarCampo st campo) = [] \<or> esIP (ip (clasificarCampo st campo))"
    by (rule clasificarCampo_ip)
  then show ?case using Cons.IH by simp
qed

lemma clasificar_ip: "ip (clasificar campos) \<noteq> [] \<Longrightarrow> esIP (ip (clasificar campos))"
  using foldl_clasificarCampo_ip [of camposIniciales campos]
  by (simp add: clasificar_def camposIniciales_def)

text \<open>
  C6: when \<^verbatim>\<open>registrarCliente\<close> accepts a command (its segments give a name and the
  classifier an IP), and a roster holds exactly one record, whose address is the
  \<^verbatim>\<open>ip_address\<close> of the create request made from the classified fields, then
  \<^verbatim>\<open>buscarCliente\<close> on that IP returns that record: the IP is a dotted quad by the
  classifier's first rule, so the resolver takes its exact-IP path.
\<close>

theorem ida_y_vuelta_ip:
  assumes "separarCampos args = nombre # restantes" and "st = clasificar restantes"
    and "ip st \<noteq> []"
    and "c_ip_address c = n_ip_address (datosCrear nombre st)"
  shows "buscarCliente (Datos True (Some [c])) (ip st) = Inr (Uno c)"
proof -
  from assms(2,3) have "esIP (ip st)" using clasificar_ip by simp
  moreover from assms(4) have "c_ip_address c = ip st" by (simp add: datosCrear_def)
  ultimately show ?thesis by (simp add: buscarCliente_def)
qed

theorem ida_y_vuelta_ip_witness:
  "separarCampos [js ''Juan'', js ''Perez'', js ''/'', js ''172.16.1.50'', js ''/'', js ''200'']
     = [js ''Juan Perez'', js ''172.16.1.50'', js ''200'']
   \<and> ip (clasificar [js ''172.16.1.50'', js ''200'']) = js ''172.16.1.50''
   \<and> buscarCliente (Datos True (Some [clientePremium])) (js ''172.16.1.50'')
       = Inr (Uno clientePremium)"
proof -
  have h1: "separarCampos [js ''Juan'', js ''Perez'', js ''/'', js ''172.16.1.50'', js ''/'', js ''200'']
     = js ''Juan Perez'' # [js ''172.16.1.50'', js ''200'']"
    by (simp add: evaluar_texto separarCampos_def)
  have i: "ip (clasificar [js ''172.16.1.50'', js ''200'']) = js ''172.16.1.50''"
    by (simp add: evaluar_texto evaluar_numero evaluar_clasificador)
  have h3: "ip (clasificar [js ''172.16.1.50'', js ''200'']) \<noteq> []"
    by (simp add: i) (simp add: js_def)
  have h4: "c_ip_address clientePremium
      = n_ip_address (datosCrear (js ''Juan Perez'') (clasificar [js ''172.16.1.50'', js ''200'']))"
    by (simp add: datosCrear_def i clientePremium_def)
  from ida_y_vuelta_ip [OF h1 refl h3 h4] i
  have "buscarCliente (Datos True (Some [clientePremium])) (js ''172.16.1.50'')
       = Inr (Uno clientePremium)" by simp
  with h1 i show ?thesis by simp
qed

section \<open>The failures of the resolver\<close>

text \<open>
  C7: an unreachable registry gives \<^verbatim>\<open>NO_CONEXION\<close> (Transport), an answer without
  data or without a truthy \<^verbatim>\<open>success\<close> gives \<^verbatim>\<open>API_ERROR\<close> (Protocol), a successful
  answer with an empty roster gives \<^verbatim>\<open>SIN_CLIENTES\<close> (EmptyRegistry); in none of these
  cases, whatever the identifier, does \<^verbatim>\<open>buscarCliente\<close> return (in particular it does
  not return \<^verbatim>\<open>null\<close>, the not-found result), the three errors are distinct, and the
  two callers answer each with a text of its own.
\<close>

theorem fallos_del_registro:
  "buscarCliente ErrorRed identificador = Inl NO_CONEXION
   \<and> buscarCliente SinDatos identificador = Inl API_ERROR
   \<and> buscarCliente (Datos False cl) identificador = Inl API_ERROR
   \<and> buscarCliente (Datos True (Some [])) identificador = Inl SIN_CLIENTES
   \<and> buscarCliente ErrorRed identificador \<noteq> Inr Ninguno
   \<and> buscarCliente SinDatos identificador \<noteq> Inr Ninguno
   \<and> buscarCliente (Datos False cl) identificador \<noteq> Inr Ninguno
   \<and> buscarCliente (Datos True (Some [])) identificador \<noteq> Inr Ninguno
   \<and> NO_CONEXION \<noteq> API_ERROR \<and> NO_CONEXION \<noteq> SIN_CLIENTES \<and> API_ERROR \<noteq> SIN_CLIENTES
   \<and> respuestaError NO_CONEXION = R_NoConexion \<and> respuestaError API_ERROR = R_ErrorAPI
   \<and> respuestaError SIN_CLIENTES = R_SinClientes"
  by (simp add: buscarCliente_def)

section \<open>Create or update\<close>

lemma crearCliente_forma:
  "\<exists>r. crearCliente reg nombre st = [PideCrear (datosCrear nombre st), Responde r]"
  by (cases "crear reg (datosCrear nombre st)") (auto simp: crearCliente_def Let_def)

lemma actualizarCliente_forma:
  "\<exists>r. actualizarCliente reg ex nombre st
         = [PideActualizar (c_id ex) (datosActualizar nombre st), Responde r]"
  by (cases "actualizar reg (c_id ex) (datosActualizar nombre st)")
     (auto simp: actualizarCliente_def Let_def)

lemma registrarCliente_crea:
  assumes "separarCampos args = nombre # restantes" and "nombre \<noteq> []"
    and "ip (clasificar restantes) \<noteq> []"
    and "clienteExistente (listar reg) (ip (clasificar restantes)) = None"
  shows "registrarCliente reg args
           = Termina (PideLista # crearCliente reg nombre (clasificar restantes))"
proof -
  from assms(3) have "restantes \<noteq> []"
    by (auto simp: clasificar_def camposIniciales_def)
  then show ?thesis using assms
    by (cases restantes) (simp_all add: registrarCliente_def Let_def)
qed

text \<open>
  C9: when \<^verbatim>\<open>registrarCliente\<close> has accepted a command and the request for the roster
  fails (it is rejected, or answers without data, without a truthy \<^verbatim>\<open>success\<close> or
  without \<^verbatim>\<open>clientes\<close>), \<^verbatim>\<open>clienteExistente\<close> stays \<^verbatim>\<open>null\<close> and the handler
  sends the create request with the classified fields, whatever records the answer
  carried.
\<close>

theorem fallo_de_consulta_crea:
  assumes "separarCampos args = nombre # restantes" and "nombre \<noteq> []"
    and "st = clasificar restantes" and "ip st \<noteq> []"
    and "listar reg = ErrorRed \<or> listar reg = SinDatos \<or> listar reg = Datos False cl
         \<or> listar reg = Datos True None"
  shows "clienteExistente (listar reg) (ip st) = None
         \<and> (\<exists>r. registrarCliente reg args
                  = Termina [PideLista, PideCrear (datosCrear nombre st), Responde r])"
proof -
  from assms(5) have n: "clienteExistente (listar reg) (ip st) = None"
    by (auto simp: clienteExistente_def split: option.splits)
  with assms(1-4) have "registrarCliente reg args = Termina (PideLista # crearCliente reg nombre st)"
    using registrarCliente_crea by simp
  with n crearCliente_forma [of reg nombre st] show ?thesis by auto
qed

theorem fallo_de_consulta_crea_witness:
  "registrarCliente
     \<lparr>listar = Datos False (Some [clientePremium]),
      registrarPago = (\<lambda>_. Resuelta True None), actualizar = (\<lambda>_ _. Resuelta True None),
      crear = (\<lambda>_. Resuelta True None)\<rparr>
     [js ''Juan'', js ''Perez'', js ''/'', js ''172.16.1.50'']
   = Termina [PideLista,
       PideCrear (datosCrear (js ''Juan Perez'') (clasificar [js ''172.16.1.50''])),
       Responde (R_ClienteRegistrado (js ''Juan Perez'') (clasificar [js ''172.16.1.50'']))]
   \<and> c_ip_address clientePremium = ip (clasificar [js ''172.16.1.50''])"
proof -
  let ?reg = "\<lparr>listar = Datos False (Some [clientePremium]),
      registrarPago = (\<lambda>_. Resuelta True None), actualizar = (\<lambda>_ _. Resuelta True None),
      crear = (\<lambda>_. Resuelta True None)\<rparr>"
  have h1: "separarCampos [js ''Juan'', js ''Perez'', js ''/'', js ''172.16.1.50'']
     = js ''Juan Perez'' # [js ''172.16.1.50'']"
    by (simp add: evaluar_texto separarCampos_def)
  have h2: "js ''Juan Perez'' \<noteq> []" by (simp add: js_def)
  have i: "ip (clasificar [js ''172.16.1.50'']) = js ''172.16.1.50''"
    by (simp add: evaluar_texto evaluar_numero evaluar_clasificador)
  have h4: "ip (clasificar [js ''172.16.1.50'']) \<noteq> []"
    by (simp add: i) (simp add: js_def)
  have h5: "listar ?reg = ErrorRed \<or> listar ?reg = SinDatos
      \<or> listar ?reg = Datos False (Some [clientePremium]) \<or> listar ?reg = Datos True None"
    by simp
  from fallo_de_consulta_crea [OF h1 h2 refl h4 h5]
  obtain r where t: "registrarCliente ?reg [js ''Juan'', js ''Perez'', js ''/'', js ''172.16.1.50'']
       = Termina [PideLista,
           PideCrear (datosCrear (js ''Juan Perez'') (clasificar [js ''172.16.1.50''])),
           Responde r]" by blast
  have c: "crearCliente ?reg (js ''Juan Perez'') (clasificar [js ''172.16.1.50''])
      = [PideCrear (datosCrear (js ''Juan Perez'') (clasificar [js ''172.16.1.50''])),
         Responde (R_ClienteRegistrado (js ''Juan Perez'') (clasificar [js ''172.16.1.50'']))]"
    by (simp add: crearCliente_def)
  have "clienteExistente (listar ?reg) (ip (clasificar [js ''172.16.1.50''])) = None"
    by (simp add: clienteExistente_def)
  with h1 h2 h4 have "registrarCliente ?reg [js ''Juan'', js ''Perez'', js ''/'', js ''172.16.1.50'']
      = Termina (PideLista # crearCliente ?reg (js ''Juan Perez'') (clasificar [js ''172.16.1.50'']))"
    using registrarCliente_crea by blast
  with t c have "r = R_ClienteRegistrado (js ''Juan Perez'') (clasificar [js ''172.16.1.50''])"
    by simp
  with t have "registrarCliente ?reg [js ''Juan'', js ''Perez'', js ''/'', js ''172.16.1.50'']
   = Termina [PideLista,
       PideCrear (datosCrear (js ''Juan Perez'') (clasificar [js ''172.16.1.50''])),
       Responde (R_ClienteRegistrado (js ''Juan Perez'') (clasificar [js ''172.16.1.50'']))]"
    by simp
  moreover have "c_ip_address clientePremium = ip (clasificar [js ''172.16.1.50''])"
    by (simp add: i clientePremium_def)
  ultimately show ?thesis by simp
qed

lemma clasificarCampo_plan:
  "esIP campo \<or> \<not> esPlan campo \<Longrightarrow>
   plan (clasificarCampo st campo) = plan st
   \<and> velocidadDown (clasificarCampo st campo) = velocidadDown st
   \<and> velocidadUp (clasificarCampo st campo) = velocidadUp st"
  by (auto simp: clasificarCampo_def asignarNumero_def)

lemma foldl_plan:
  "\<forall>campo\<in>set campos. esIP campo \<or> \<not> esPlan campo \<Longrightarrow>
   plan (foldl clasificarCampo st campos) = plan st
   \<and> velocidadDown (foldl clasificarCampo st campos) = velocidadDown st
   \<and> velocidadUp (foldl clasificarCampo st campos) = velocidadUp st"
  by (induction campos arbitrary: st) (simp_all add: clasificarCampo_plan)

lemma clasificarCampo_dia:
  "esIP campo \<or> esPlan campo \<or> esTelefono campo \<or> \<not> esNumero campo
     \<or> \<not> (mayorIgual (parseFloat campo) 1 \<and> menorIgual (parseFloat campo) 28) \<Longrightarrow>
   diaCorteFinal (clasificarCampo st campo) = diaCorteFinal st"
  by (auto simp: clasificarCampo_def asignarNumero_def split: option.splits)

lemma foldl_dia:
  "\<forall>campo\<in>set campos. esIP campo \<or> esPlan campo \<or> esTelefono campo \<or> \<not> esNumero campo
     \<or> \<not> (mayorIgual (parseFloat campo) 1 \<and> menorIgual (parseFloat campo) 28) \<Longrightarrow>
   diaCorteFinal (foldl clasificarCampo st campos) = diaCorteFinal st"
  by (induction campos arbitrary: st) (simp_all add: clasificarCampo_dia)

text \<open>
  C10: every update of an existing client sends the plan, both speeds and the billing
  day with the values of the classifier. These are \<^verbatim>\<open>Basico 7Mbps\<close>, \<^verbatim>\<open>7M\<close>,
  \<^verbatim>\<open>7M\<close> when no segment is classified as a plan, and 1 when no segment reaches the
  numeric rule with a value in [1, 28]. The price, the telephone and the address are
  members of the request only when the classified value is positive or not empty. A
  command with the name and the IP alone sends the four defaults and none of the three
  optional members.
\<close>

theorem actualizacion_con_defectos:
  assumes "separarCampos args = nombre # restantes" and "nombre \<noteq> []"
    and "st = clasificar restantes" and "ip st \<noteq> []"
    and "clienteExistente (listar reg) (ip st) = Some ex"
  shows "(\<exists>r. registrarCliente reg args
              = Termina [PideLista, PideActualizar (c_id ex) (datosActualizar nombre st),
                         Responde r])
         \<and> u_plan (datosActualizar nombre st) = plan st
         \<and> u_velocidad_download (datosActualizar nombre st) = velocidadDown st
         \<and> u_velocidad_upload (datosActualizar nombre st) = velocidadUp st
         \<and> u_dia_corte (datosActualizar nombre st) = diaCorteFinal st
         \<and> u_precio_mensual (datosActualizar nombre st)
             = (if mayor (precio st) 0 then Some (precio st) else None)
         \<and> u_telefono (datosActualizar nombre st)
             = (if telefono st \<noteq> [] then Some (telefono st) else None)
         \<and> u_direccion (datosActualizar nombre st)
             = (if direccion st \<noteq> [] then Some (direccion st) else None)
         \<and> ((\<forall>campo\<in>set restantes. esIP campo \<or> \<not> esPlan campo) \<longrightarrow>
               plan st = js ''Basico 7Mbps'' \<and> velocidadDown st = js ''7M''
               \<and> velocidadUp st = js ''7M'')
         \<and> ((\<forall>campo\<in>set restantes.
                 esIP campo \<or> esPlan campo \<or> esTelefono campo \<or> \<not> esNumero campo
                 \<or> \<not> (mayorIgual (parseFloat campo) 1 \<and> menorIgual (parseFloat campo) 28)) \<longrightarrow>
               diaCorteFinal st = Fin 1)
         \<and> (restantes = [ip st] \<longrightarrow>
               datosActualizar nombre st
                 = \<lparr>u_nombre = nombre, u_telefono = None, u_direccion = None,
                    u_plan = js ''Basico 7Mbps'', u_velocidad_download = js ''7M'',
                    u_velocidad_upload = js ''7M'', u_precio_mensual = None,
                    u_dia_corte = Fin 1\<rparr>)"
proof -
  from assms(4) have ne: "restantes \<noteq> []"
    using assms(3) by (auto simp: clasificar_def camposIniciales_def)
  have "registrarCliente reg args = Termina (PideLista # actualizarCliente reg ex nombre st)"
    using assms ne registrarCliente_actualiza by simp
  with actualizarCliente_forma [of reg ex nombre st]
  have a: "\<exists>r. registrarCliente reg args
              = Termina [PideLista, PideActualizar (c_id ex) (datosActualizar nombre st),
                         Responde r]" by auto
  have p: "plan st = js ''Basico 7Mbps'' \<and> velocidadDown st = js ''7M'' \<and> velocidadUp st = js ''7M''"
    if "\<forall>campo\<in>set restantes. esIP campo \<or> \<not> esPlan campo"
    using foldl_plan [OF that, of camposIniciales] assms(3)
    by (simp add: clasificar_def camposIniciales_def planPorDefecto_def)
  have d: "diaCorteFinal st = Fin 1"
    if "\<forall>campo\<in>set restantes. esIP campo \<or> esPlan campo \<or> esTelefono campo \<or> \<not> esNumero campo
                 \<or> \<not> (mayorIgual (parseFloat campo) 1 \<and> menorIgual (parseFloat campo) 28)"
    using foldl_dia [OF that, of camposIniciales] assms(3)
    by (simp add: clasificar_def camposIniciales_def)
  have m: "datosActualizar nombre st
                 = \<lparr>u_nombre = nombre, u_telefono = None, u_direccion = None,
                    u_plan = js ''Basico 7Mbps'', u_velocidad_download = js ''7M'',
                    u_velocidad_upload = js ''7M'', u_precio_mensual = None,
                    u_dia_corte = Fin 1\<rparr>"
    if r: "restantes = [ip st]"
  proof -
    from assms(3,4) have e: "esIP (ip st)" using clasificar_ip by simp
    define x where "x = ip st"
    from r have rx: "restantes = [x]" by (simp add: x_def)
    from e have ex: "esIP x" by (simp add: x_def)
    from assms(3) have "st = clasificarCampo camposIniciales x"
      unfolding rx by (simp add: clasificar_def)
    with ex have "st = camposIniciales\<lparr>ip := x\<rparr>"
      by (simp add: clasificarCampo_def)
    then have "datosActualizar nombre st = datosActualizar nombre (camposIniciales\<lparr>ip := x\<rparr>)"
      by simp
    then show ?thesis
      by (simp add: datosActualizar_def camposIniciales_def planPorDefecto_def)
  qed
  show ?thesis using a p d m by (simp add: datosActualizar_def)
qed

theorem actualizacion_con_defectos_witness:
  "clienteExistente (listar (registroCon [clientePremium])) (js ''172.16.1.50'')
     = Some clientePremium
   \<and> c_plan clientePremium = js ''Premium 20Mbps''
   \<and> plan (clasificar [js ''172.16.1.50'']) = js ''Basico 7Mbps''
   \<and> diaCorteFinal (clasificar [js ''172.16.1.50'']) = Fin 1
   \<and> registrarCliente (registroCon [clientePremium])
              [js ''Juan'', js ''Perez'', js ''/'', js ''172.16.1.50'']
       = Termina [PideLista,
           PideActualizar 7
             \<lparr>u_nombre = js ''Juan Perez'', u_telefono = None, u_direccion = None,
              u_plan = js ''Basico 7Mbps'', u_velocidad_download = js ''7M'',
              u_velocidad_upload = js ''7M'', u_precio_mensual = None,
              u_dia_corte = Fin 1\<rparr>,
           Responde (R_ClienteActualizado (js ''Juan Perez'') (js ''172.16.1.50'')
                       SinCambiosDetectados)]"
proof -
  let ?args = "[js ''Juan'', js ''Perez'', js ''/'', js ''172.16.1.50'']"
  let ?st = "clasificar [js ''172.16.1.50'']"
  have h1: "separarCampos ?args = js ''Juan Perez'' # [js ''172.16.1.50'']"
    by (simp add: evaluar_texto separarCampos_def)
  have h2: "js ''Juan Perez'' \<noteq> []" by (simp add: js_def)
  have s: "?st = camposIniciales\<lparr>ip := js ''172.16.1.50''\<rparr>"
    by (simp add: evaluar_texto evaluar_numero evaluar_clasificador)
  have i: "ip ?st = js ''172.16.1.50''"
    by (simp add: s)
  have h4: "ip ?st \<noteq> []"
    by (simp add: i) (simp add: js_def)
  have e: "clienteExistente (listar (registroCon [clientePremium])) (js ''172.16.1.50'')
     = Some clientePremium"
    by (simp add: clienteExistente_def registroCon_def clientePremium_def)
  then have h5: "clienteExistente (listar (registroCon [clientePremium])) (ip ?st)
      = Some clientePremium"
    by (simp only: i)
  have r: "[js ''172.16.1.50''] = [ip ?st]"
    by (simp only: i)
  have c: "c_id clientePremium = 7" "c_plan clientePremium = js ''Premium 20Mbps''"
    by (simp_all add: clientePremium_def)
  note t = actualizacion_con_defectos [OF h1 h2 refl h4 h5]
  from t r have d: "datosActualizar (js ''Juan Perez'') ?st
                 = \<lparr>u_nombre = js ''Juan Perez'', u_telefono = None, u_direccion = None,
                    u_plan = js ''Basico 7Mbps'', u_velocidad_download = js ''7M'',
                    u_velocidad_upload = js ''7M'', u_precio_mensual = None,
                    u_dia_corte = Fin 1\<rparr>" by blast
  from t obtain r' where q: "registrarCliente (registroCon [clientePremium]) ?args
              = Termina [PideLista,
                  PideActualizar (c_id clientePremium) (datosActualizar (js ''Juan Perez'') ?st),
                  Responde r']" by blast
  have n: "cambiosDe clientePremium (js ''Juan Perez'') ?st = []"
    by (simp add: s cambiosDe_def camposIniciales_def planPorDefecto_def clientePremium_def
        igualEstricto_def)
  have "actualizarCliente (registroCon [clientePremium]) clientePremium (js ''Juan Perez'') ?st
      = [PideActualizar (c_id clientePremium) (datosActualizar (js ''Juan Perez'') ?st),
         Responde (R_ClienteActualizado (js ''Juan Perez'') (ip ?st) SinCambiosDetectados)]"
    by (simp add: actualizarCliente_def registroCon_def n textoCambios_def)
  moreover have "registrarCliente (registroCon [clientePremium]) ?args
      = Termina (PideLista # actualizarCliente (registroCon [clientePremium]) clientePremium
                   (js ''Juan Perez'') ?st)"
    using h1 h2 h4 h5 registrarCliente_actualiza by blast
  ultimately have "r' = R_ClienteActualizado (js ''Juan Perez'') (ip ?st) SinCambiosDetectados"
    using q by simp
  with q have "registrarCliente (registroCon [clientePremium]) ?args
       = Termina [PideLista,
           PideActualizar 7
             \<lparr>u_nombre = js ''Juan Perez'', u_telefono = None, u_direccion = None,
              u_plan = js ''Basico 7Mbps'', u_velocidad_download = js ''7M'',
              u_velocidad_upload = js ''7M'', u_precio_mensual = None,
              u_dia_corte = Fin 1\<rparr>,
           Responde (R_ClienteActualizado (js ''Juan Perez'') (js ''172.16.1.50'')
                       SinCambiosDetectados)]"
    by (simp only: d c i)
  moreover have "esIP (js ''172.16.1.50'')"
    by (simp add: evaluar_texto evaluar_clasificador)
  then have q1: "\<forall>campo\<in>set [js ''172.16.1.50'']. esIP campo \<or> \<not> esPlan campo"
    and q2: "\<forall>campo\<in>set [js ''172.16.1.50''].
               esIP campo \<or> esPlan campo \<or> esTelefono campo \<or> \<not> esNumero campo
               \<or> \<not> (mayorIgual (parseFloat campo) 1 \<and> menorIgual (parseFloat campo) 28)"
    by simp_all
  from t q1 have "plan ?st = js ''Basico 7Mbps''" by blast
  moreover from t q2 have "diaCorteFinal ?st = Fin 1" by blast
  ultimately show ?thesis using e c by blast
qed

section \<open>The scan of \<^verbatim>\<open>procesarPago\<close>\<close>

lemma parseFloat_sin_numero:
  assumes "\<not> esEspacio c" and "c \<noteq> 45" and "c \<noteq> 43" and "c \<noteq> 73" and "\<not> esDigito c"
    and "c \<noteq> 46"
  shows "parseFloat (c # xs) = NaN"
  using assms by (simp add: parseFloat_def startsWith_def js_def Let_def)

lemma numeroDe_letra:
  assumes "c \<in> {114, 82, 101, 69, 116, 84, 100, 68}"
  shows "numeroDe (c # xs) = NaN"
proof -
  from assms have "remove1 113 (remove1 81 (c # xs)) = c # remove1 113 (remove1 81 xs)"
    by auto
  moreover from assms have "parseFloat (c # remove1 113 (remove1 81 xs)) = NaN"
    by (intro parseFloat_sin_numero) (auto simp: esEspacio_def esDigito_def)
  ultimately show ?thesis by (simp add: numeroDe_def)
qed

lemma minuscula_letra:
  "minuscula c = 114 \<Longrightarrow> c = 114 \<or> c = 82"
  "minuscula c = 101 \<Longrightarrow> c = 101 \<or> c = 69"
  "minuscula c = 116 \<Longrightarrow> c = 116 \<or> c = 84"
  "minuscula c = 100 \<Longrightarrow> c = 100 \<or> c = 68"
  by (auto simp: minuscula_def split: if_splits)

lemma esRef_sin_numero: "esRef tok \<Longrightarrow> numeroDe tok = NaN"
proof (cases tok)
  case Nil
  then show "esRef tok \<Longrightarrow> numeroDe tok = NaN"
    by (simp add: esRef_def startsWith_def toLowerCase_def js_def)
next
  case (Cons c xs)
  assume "esRef tok"
  with Cons have "minuscula c = 114"
    by (simp add: esRef_def startsWith_def toLowerCase_def js_def)
  then have "c = 114 \<or> c = 82" by (rule minuscula_letra)
  then show "numeroDe tok = NaN" using Cons numeroDe_letra [of c xs] by auto
qed

lemma esMetodo_sin_numero: "esMetodo CONFIG tok \<Longrightarrow> numeroDe tok = NaN"
proof (cases tok)
  case Nil
  then show "esMetodo CONFIG tok \<Longrightarrow> numeroDe tok = NaN"
    by (simp add: esMetodo_def CONFIG_def toLowerCase_def js_def)
next
  case (Cons c xs)
  assume "esMetodo CONFIG tok"
  with Cons have "minuscula c = 101 \<or> minuscula c = 116 \<or> minuscula c = 100"
    by (auto simp: esMetodo_def CONFIG_def toLowerCase_def js_def)
  then have "c \<in> {114, 82, 101, 69, 116, 84, 100, 68}"
    using minuscula_letra [of c] by auto
  then show "numeroDe tok = NaN" using Cons numeroDe_letra [of c xs] by simp
qed

lemma detiene_CONFIG: "detiene CONFIG tok = esMonto (numeroDe tok)"
  using esRef_sin_numero [of tok] esMetodo_sin_numero [of tok]
  by (auto simp: detiene_def esMonto_def)

lemma referenciaDe_snoc:
  "referenciaDe (toks @ [t]) d = referenciaDe toks (if esRef t then drop 4 t else d)"
  by (simp add: referenciaDe_def split: list.splits)

lemma metodoDe_snoc:
  "metodoDe cfg (toks @ [t]) d
     = metodoDe cfg toks (if \<not> esRef t \<and> esMetodo cfg t then toLowerCase t else d)"
  by (simp add: metodoDe_def split: list.splits)

lemma tramo_snoc:
  assumes "j \<le> k" and "Suc k < length args"
  shows "take (Suc k - j) (drop (Suc j) args) = take (k - j) (drop (Suc j) args) @ [args ! Suc k]"
proof -
  from assms have "k - j < length (drop (Suc j) args)" by simp
  then have "take (Suc (k - j)) (drop (Suc j) args)
      = take (k - j) (drop (Suc j) args) @ [drop (Suc j) args ! (k - j)]"
    by (rule take_Suc_conv_app_nth)
  moreover from assms have "drop (Suc j) args ! (k - j) = args ! Suc k" by simp
  moreover from assms have "Suc k - j = Suc (k - j)" by simp
  ultimately show ?thesis by simp
qed

lemma buscarMonto_salta:
  "j \<le> n \<Longrightarrow> n < length args \<Longrightarrow> \<forall>i. j < i \<and> i \<le> n \<longrightarrow> \<not> detiene cfg (args ! i) \<Longrightarrow>
   buscarMonto cfg args n st
     = buscarMonto cfg args j
         (st\<lparr>metodoPago := metodoDe cfg (take (n - j) (drop (Suc j) args)) (metodoPago st),
             referencia := referenciaDe (take (n - j) (drop (Suc j) args)) (referencia st)\<rparr>)"
proof (induction n arbitrary: st)
  case 0
  then show ?case by (simp add: metodoDe_def referenciaDe_def)
next
  case (Suc k)
  show ?case
  proof (cases "j = Suc k")
    case True
    then show ?thesis by (simp add: metodoDe_def referenciaDe_def)
  next
    case False
    with Suc.prems have jk: "j \<le> k" and kl: "Suc k < length args" by simp_all
    from Suc.prems jk have nd: "\<not> detiene cfg (args ! Suc k)" by simp
    from Suc.prems have rest: "\<forall>i. j < i \<and> i \<le> k \<longrightarrow> \<not> detiene cfg (args ! i)" by simp
    from kl have kl': "k < length args" by simp
    note ih = Suc.IH [OF jk kl' rest]
    note sn = tramo_snoc [OF jk kl]
    show ?thesis
    proof (cases "esRef (args ! Suc k)")
      case True
      then have "buscarMonto cfg args (Suc k) st
          = buscarMonto cfg args k (st\<lparr>referencia := drop 4 (args ! Suc k)\<rparr>)"
        by (simp add: esRef_def Let_def)
      also have "\<dots> = buscarMonto cfg args j
         (st\<lparr>metodoPago := metodoDe cfg (take (Suc k - j) (drop (Suc j) args)) (metodoPago st),
             referencia := referenciaDe (take (Suc k - j) (drop (Suc j) args)) (referencia st)\<rparr>)"
        using True by (simp add: ih sn referenciaDe_snoc metodoDe_snoc)
      finally show ?thesis .
    next
      case noref: False
      show ?thesis
      proof (cases "esMetodo cfg (args ! Suc k)")
        case True
        with noref have "buscarMonto cfg args (Suc k) st
            = buscarMonto cfg args k (st\<lparr>metodoPago := toLowerCase (args ! Suc k)\<rparr>)"
          by (simp add: esRef_def esMetodo_def Let_def)
        also have "\<dots> = buscarMonto cfg args j
           (st\<lparr>metodoPago := metodoDe cfg (take (Suc k - j) (drop (Suc j) args)) (metodoPago st),
               referencia := referenciaDe (take (Suc k - j) (drop (Suc j) args)) (referencia st)\<rparr>)"
          using True noref by (simp add: ih sn referenciaDe_snoc metodoDe_snoc)
        finally show ?thesis .
      next
        case False
        with noref nd have "\<not> esMonto (numeroDe (args ! Suc k))" by (simp add: detiene_def)
        with noref False have "buscarMonto cfg args (Suc k) st = buscarMonto cfg args k st"
          by (simp add: esRef_def esMetodo_def Let_def)
        also have "\<dots> = buscarMonto cfg args j
           (st\<lparr>metodoPago := metodoDe cfg (take (Suc k - j) (drop (Suc j) args)) (metodoPago st),
               referencia := referenciaDe (take (Suc k - j) (drop (Suc j) args)) (referencia st)\<rparr>)"
          using False noref by (simp add: ih sn referenciaDe_snoc metodoDe_snoc)
        finally show ?thesis .
      qed
    qed
  qed
qed

lemma buscarMonto_para:
  "1 \<le> j \<Longrightarrow> detiene cfg (args ! j) \<Longrightarrow>
   buscarMonto cfg args j st = st\<lparr>monto := Some (numeroDe (args ! j)), montoIndex := int j\<rparr>"
  by (cases j) (simp_all add: detiene_def esRef_def esMetodo_def Let_def)

lemma buscarMonto_encuentra:
  assumes "1 \<le> j" and "j < length args" and "detiene cfg (args ! j)"
    and "\<forall>i. j < i \<and> i < length args \<longrightarrow> \<not> detiene cfg (args ! i)"
  shows "buscarMonto cfg args (length args - 1) extraccionInicial
           = \<lparr>monto = Some (numeroDe (args ! j)), montoIndex = int j,
              metodoPago = metodoDe cfg (drop (Suc j) args) (js ''efectivo''),
              referencia = referenciaDe (drop (Suc j) args) []\<rparr>"
proof -
  from assms(2) have a: "j \<le> length args - 1" and b: "length args - 1 < length args" by simp_all
  from assms(4) have c: "\<forall>i. j < i \<and> i \<le> length args - 1 \<longrightarrow> \<not> detiene cfg (args ! i)"
    by auto
  from assms(2) have t: "take (length args - 1 - j) (drop (Suc j) args) = drop (Suc j) args"
    by simp
  have "buscarMonto cfg args (length args - 1) extraccionInicial
      = buscarMonto cfg args j
         (extraccionInicial\<lparr>metodoPago := metodoDe cfg (drop (Suc j) args)
                                              (metodoPago extraccionInicial),
             referencia := referenciaDe (drop (Suc j) args) (referencia extraccionInicial)\<rparr>)"
    using buscarMonto_salta [OF a b c, of extraccionInicial] by (simp only: t)
  then show ?thesis
    by (simp add: buscarMonto_para [OF assms(1,3)] extraccionInicial_def)
qed

lemma buscarMonto_nada:
  assumes "\<forall>i. 1 \<le> i \<and> i < length args \<longrightarrow> \<not> detiene cfg (args ! i)"
  shows "monto (buscarMonto cfg args (length args - 1) extraccionInicial) = None
         \<and> montoIndex (buscarMonto cfg args (length args - 1) extraccionInicial) = - 1"
proof (cases args)
  case Nil
  then show ?thesis by (simp add: extraccionInicial_def)
next
  case (Cons a as)
  then have b: "length args - 1 < length args" by simp
  from assms have c: "\<forall>i. 0 < i \<and> i \<le> length args - 1 \<longrightarrow> \<not> detiene cfg (args ! i)"
    by auto
  have "buscarMonto cfg args (length args - 1) extraccionInicial
      = buscarMonto cfg args 0
         (extraccionInicial\<lparr>metodoPago := metodoDe cfg
              (take (length args - 1 - 0) (drop (Suc 0) args)) (metodoPago extraccionInicial),
             referencia := referenciaDe (take (length args - 1 - 0) (drop (Suc 0) args))
              (referencia extraccionInicial)\<rparr>)"
    by (rule buscarMonto_salta [OF le0 b c])
  then show ?thesis
    by (simp add: extraccionInicial_def)
qed

text \<open>
  C4: let \<open>j \<ge> 1\<close> be the last index whose token parses as a positive amount (with the
  payment methods of \<^verbatim>\<open>CONFIG\<close>, such a token is never a reference or a method). The
  scan, which starts at the last index, stops there: the amount is that token's number,
  the method and the reference come from the tokens to the right of \<open>j\<close> only, and the
  identifier is the tokens before \<open>j\<close> joined with spaces, whatever they are (a method
  or a \<^verbatim>\<open>ref:\<close> token among them is not extracted). The token at index 0 is never
  looked at: when no token from index 1 on is an amount, no amount is found.
\<close>

theorem escaneo_se_detiene_en_monto:
  assumes "1 \<le> j" and "j < length args" and "esMonto (numeroDe (args ! j))"
    and "\<forall>i. j < i \<and> i < length args \<longrightarrow> \<not> esMonto (numeroDe (args ! i))"
  shows "buscarMonto CONFIG args (length args - 1) extraccionInicial
           = \<lparr>monto = Some (numeroDe (args ! j)), montoIndex = int j,
              metodoPago = metodoDe CONFIG (drop (Suc j) args) (js ''efectivo''),
              referencia = referenciaDe (drop (Suc j) args) []\<rparr>
         \<and> identificadorDe args (buscarMonto CONFIG args (length args - 1) extraccionInicial)
             = unir (js '' '') (take j args)
         \<and> procesarPago CONFIG reg args
             = pagarA reg args (numeroDe (args ! j))
                 (buscarMonto CONFIG args (length args - 1) extraccionInicial)
         \<and> (\<forall>otros. (\<forall>i. 1 \<le> i \<and> i < length otros \<longrightarrow> \<not> esMonto (numeroDe (otros ! i))) \<longrightarrow>
               monto (buscarMonto CONFIG otros (length otros - 1) extraccionInicial) = None
               \<and> (2 \<le> length otros \<longrightarrow>
                    procesarPago CONFIG reg otros = Termina [Responde R_PagoSinMonto]))"
proof -
  let ?E = "buscarMonto CONFIG args (length args - 1) extraccionInicial"
  have e: "?E = \<lparr>monto = Some (numeroDe (args ! j)), montoIndex = int j,
              metodoPago = metodoDe CONFIG (drop (Suc j) args) (js ''efectivo''),
              referencia = referenciaDe (drop (Suc j) args) []\<rparr>"
    using assms by (intro buscarMonto_encuentra) (simp_all add: detiene_CONFIG)
  have i: "identificadorDe args ?E = unir (js '' '') (take j args)"
    unfolding e by (simp add: identificadorDe_def)
  from assms(3) have m: "numeroDe (args ! j) \<noteq> NaN" "numeroDe (args ! j) \<noteq> Fin 0"
    by (auto simp: esMonto_def)
  from assms(1,2) have l: "\<not> length args < 2" by simp
  have p: "procesarPago CONFIG reg args = pagarA reg args (numeroDe (args ! j)) ?E"
    unfolding procesarPago_def Let_def e using l m assms(1) by simp
  have n: "monto (buscarMonto CONFIG otros (length otros - 1) extraccionInicial) = None
           \<and> (2 \<le> length otros \<longrightarrow>
                procesarPago CONFIG reg otros = Termina [Responde R_PagoSinMonto])"
    if "\<forall>i. 1 \<le> i \<and> i < length otros \<longrightarrow> \<not> esMonto (numeroDe (otros ! i))" for otros
  proof -
    from that have "\<forall>i. 1 \<le> i \<and> i < length otros \<longrightarrow> \<not> detiene CONFIG (otros ! i)"
      by (simp add: detiene_CONFIG)
    then have "monto (buscarMonto CONFIG otros (length otros - 1) extraccionInicial) = None"
      using buscarMonto_nada by blast
    then show ?thesis unfolding procesarPago_def Let_def by simp
  qed
  from e i p n show ?thesis by blast
qed

theorem escaneo_se_detiene_en_monto_witness:
  "esMonto (numeroDe ([js ''Juan'', js ''ref:9'', js ''tarjeta'', js ''Q200'', js ''transferencia''] ! 3))
   \<and> buscarMonto CONFIG
       [js ''Juan'', js ''ref:9'', js ''tarjeta'', js ''Q200'', js ''transferencia''] 4
       extraccionInicial
     = \<lparr>monto = Some (Fin 200), montoIndex = 3, metodoPago = js ''transferencia'',
        referencia = []\<rparr>
   \<and> identificadorDe [js ''Juan'', js ''ref:9'', js ''tarjeta'', js ''Q200'', js ''transferencia'']
       (buscarMonto CONFIG
          [js ''Juan'', js ''ref:9'', js ''tarjeta'', js ''Q200'', js ''transferencia''] 4
          extraccionInicial)
     = js ''Juan ref:9 tarjeta''
   \<and> esMonto (numeroDe ([js ''200'', js ''Juan''] ! 0))
   \<and> procesarPago CONFIG (registroCon []) [js ''200'', js ''Juan'']
       = Termina [Responde R_PagoSinMonto]"
proof -
  let ?args = "[js ''Juan'', js ''ref:9'', js ''tarjeta'', js ''Q200'', js ''transferencia'']"
  let ?otros = "[js ''200'', js ''Juan'']"
  have h1: "1 \<le> (3::nat)" by simp
  have h2: "3 < length ?args" by simp
  have n3: "?args ! 3 = js ''Q200''" by simp
  have v: "numeroDe (js ''Q200'') = Fin 200"
    by (simp add: numeroDe_def evaluar_texto evaluar_numero)
  have h3: "esMonto (numeroDe (?args ! 3))"
    by (simp only: n3 v) (simp add: esMonto_def)
  have w: "numeroDe (js ''transferencia'') = NaN"
    by (simp add: numeroDe_def evaluar_texto evaluar_numero)
  have h4: "\<forall>i. 3 < i \<and> i < length ?args \<longrightarrow> \<not> esMonto (numeroDe (?args ! i))"
  proof (intro allI impI)
    fix i :: nat
    assume "3 < i \<and> i < length ?args"
    then have "i = 4" by simp
    then show "\<not> esMonto (numeroDe (?args ! i))" by (simp add: w esMonto_def)
  qed
  have l: "length ?args - 1 = 4" by simp
  have md: "metodoDe CONFIG (drop (Suc 3) ?args) (js ''efectivo'') = js ''transferencia''"
    by (simp add: metodoDe_def esRef_def esMetodo_def CONFIG_def evaluar_texto)
  have rd: "referenciaDe (drop (Suc 3) ?args) [] = []"
    by (simp add: referenciaDe_def esRef_def evaluar_texto)
  have u: "unir (js '' '') (take 3 ?args) = js ''Juan ref:9 tarjeta''"
    by (simp add: js_def)
  note t = escaneo_se_detiene_en_monto [OF h1 h2 h3 h4]
  have a0: "buscarMonto CONFIG ?args (length ?args - 1) extraccionInicial
           = \<lparr>monto = Some (numeroDe (?args ! 3)), montoIndex = int 3,
              metodoPago = metodoDe CONFIG (drop (Suc 3) ?args) (js ''efectivo''),
              referencia = referenciaDe (drop (Suc 3) ?args) []\<rparr>"
    by (rule t [THEN conjunct1])
  have a: "buscarMonto CONFIG ?args 4 extraccionInicial
     = \<lparr>monto = Some (Fin 200), montoIndex = 3, metodoPago = js ''transferencia'',
        referencia = []\<rparr>"
    using a0 by (simp only: l n3 v md rd) simp
  have b0: "identificadorDe ?args (buscarMonto CONFIG ?args (length ?args - 1) extraccionInicial)
     = unir (js '' '') (take 3 ?args)"
    by (rule t [THEN conjunct2, THEN conjunct1])
  have b: "identificadorDe ?args (buscarMonto CONFIG ?args 4 extraccionInicial)
     = js ''Juan ref:9 tarjeta''"
    using b0 by (simp only: l u)
  have x: "numeroDe (js ''Juan'') = NaN" "numeroDe (js ''200'') = Fin 200"
    by (simp_all add: numeroDe_def evaluar_texto evaluar_numero)
  have o0: "esMonto (numeroDe (?otros ! 0))"
    by (simp add: x esMonto_def)
  have o1: "\<forall>i. 1 \<le> i \<and> i < length ?otros \<longrightarrow> \<not> esMonto (numeroDe (?otros ! i))"
  proof (intro allI impI)
    fix i :: nat
    assume "1 \<le> i \<and> i < length ?otros"
    then have "i = 1" by simp
    then show "\<not> esMonto (numeroDe (?otros ! i))" by (simp add: x esMonto_def)
  qed
  have o2: "2 \<le> length ?otros" by simp
  from escaneo_se_detiene_en_monto [OF h1 h2 h3 h4, of "registroCon []"] o1 o2
  have c: "procesarPago CONFIG (registroCon []) ?otros = Termina [Responde R_PagoSinMonto]"
    by blast
  from h3 a b o0 c show ?thesis by blast
qed

section \<open>The dispatcher\<close>

lemma mas_de_uno: "xs \<noteq> [] \<Longrightarrow> length xs \<noteq> Suc 0 \<Longrightarrow> Suc 0 < length xs"
  by (cases xs) auto

lemma buscarCliente_varios:
  "buscarCliente resp identificador = Inr (Varios cs) \<Longrightarrow> 1 < length cs"
  by (auto simp: buscarCliente_def Let_def intro: mas_de_uno
      split: respuesta_lista.splits option.splits if_splits)

lemma enviarPago_una: "length (respuestasDe (enviarPago reg cd m metodo ref)) = 1"
  by (auto simp: enviarPago_def Let_def split: option.splits respuesta_mutacion.splits)

lemma pagarA_una: "\<exists>es. pagarA reg args m st = Termina es \<and> length (respuestasDe es) = 1"
  by (auto simp: pagarA_def Let_def enviarPago_una split: sum.splits encontrado.splits)

lemma procesarPago_una:
  "\<exists>es. procesarPago cfg reg args = Termina es \<and> length (respuestasDe es) = 1"
  using pagarA_una by (auto simp: procesarPago_def Let_def split: option.splits)

lemma consultarCliente_una:
  "\<exists>es. consultarCliente reg args = Termina es \<and> length (respuestasDe es) = 1"
proof (cases "buscarCliente (listar reg) (unir (js '' '') args)")
  case (Inl e)
  then show ?thesis by (simp add: consultarCliente_def Let_def)
next
  case (Inr f)
  show ?thesis
  proof (cases f)
    case (Uno c)
    with Inr show ?thesis by (simp add: consultarCliente_def Let_def)
  next
    case (Varios cs)
    with Inr have "1 < length cs" using buscarCliente_varios by blast
    with Inr Varios show ?thesis by (simp add: consultarCliente_def Let_def)
  next
    case Ninguno
    with Inr show ?thesis by (simp add: consultarCliente_def Let_def)
  qed
qed

lemma actualizarCliente_una: "length (respuestasDe (actualizarCliente reg ex nombre st)) = 1"
  by (auto simp: actualizarCliente_def Let_def split: respuesta_mutacion.splits)

lemma crearCliente_una: "length (respuestasDe (crearCliente reg nombre st)) = 1"
  by (auto simp: crearCliente_def Let_def split: respuesta_mutacion.splits)

lemma registrarCliente_una:
  "\<exists>es. registrarCliente reg args = Termina es \<and> length (respuestasDe es) = 1"
  by (auto simp: registrarCliente_def Let_def actualizarCliente_una crearCliente_una
      split: list.splits option.splits)

lemma despachar_una:
  "\<exists>es. despachar (manejadoresBot cfg reg) partes = Termina es \<and> length (respuestasDe es) = 1"
  using procesarPago_una [of cfg reg "drop 1 partes"] registrarCliente_una [of reg "drop 1 partes"]
    consultarCliente_una [of reg "drop 1 partes"]
  by (auto simp: despachar_def manejadoresBot_def Let_def)

lemma respuestasDe_append: "respuestasDe (es @ fs) = respuestasDe es @ respuestasDe fs"
  by (induction es rule: respuestasDe.induct) simp_all

lemma capturar_termina: "\<exists>es. capturar e = Termina es"
  by (cases e) simp_all

text \<open>
  C8: a message from another chat than the configured one, or whose trimmed text does
  not start with the prefix, produces nothing. Any other message gets exactly one reply
  from the handlers of the bot, which never throw. The handler of the event never
  throws, whatever the four handlers do: if the one it calls throws after the events
  \<open>es\<close>, the result is \<open>es\<close> followed by the one text of the \<^verbatim>\<open>catch\<close>
  (\<^verbatim>\<open>message.reply\<close> is taken to deliver).
\<close>

theorem frontera_del_despachador:
  "((GRUPO_ID cfg \<noteq> [] \<and> m_from message \<noteq> GRUPO_ID cfg)
      \<or> \<not> startsWith (trim (m_body message)) (PREFIJO cfg)
     \<longrightarrow> alRecibir cfg h message = Termina []
         \<and> on_message_create cfg reg message = Termina [])
   \<and> (\<not> (GRUPO_ID cfg \<noteq> [] \<and> m_from message \<noteq> GRUPO_ID cfg)
        \<and> startsWith (trim (m_body message)) (PREFIJO cfg)
     \<longrightarrow> (\<exists>es. on_message_create cfg reg message = Termina es
               \<and> length (respuestasDe es) = 1)
         \<and> (\<forall>es. despachar h (splitEspacios (trim (drop 1 (trim (m_body message))))) = Lanza es
               \<longrightarrow> alRecibir cfg h message = Termina (es @ [Responde R_ErrorInterno])
                   \<and> respuestasDe (es @ [Responde R_ErrorInterno])
                       = respuestasDe es @ [R_ErrorInterno])
         \<and> (\<forall>es. despachar h (splitEspacios (trim (drop 1 (trim (m_body message))))) = Termina es
               \<longrightarrow> alRecibir cfg h message = Termina es))
   \<and> (\<exists>es. alRecibir cfg h message = Termina es)"
proof (intro conjI impI)
  assume a: "(GRUPO_ID cfg \<noteq> [] \<and> m_from message \<noteq> GRUPO_ID cfg)
      \<or> \<not> startsWith (trim (m_body message)) (PREFIJO cfg)"
  then show "alRecibir cfg h message = Termina []"
    by (auto simp: alRecibir_def Let_def)
  from a show "on_message_create cfg reg message = Termina []"
    by (auto simp: on_message_create_def alRecibir_def Let_def)
next
  assume a: "\<not> (GRUPO_ID cfg \<noteq> [] \<and> m_from message \<noteq> GRUPO_ID cfg)
        \<and> startsWith (trim (m_body message)) (PREFIJO cfg)"
  let ?partes = "splitEspacios (trim (drop 1 (trim (m_body message))))"
  have r: "alRecibir cfg k message = capturar (despachar k ?partes)" for k
    using a by (auto simp: alRecibir_def Let_def)
  from despachar_una [of cfg reg ?partes]
  obtain es where "despachar (manejadoresBot cfg reg) ?partes = Termina es"
    and "length (respuestasDe es) = 1" by blast
  then show "\<exists>es. on_message_create cfg reg message = Termina es \<and> length (respuestasDe es) = 1"
    by (simp add: on_message_create_def r)
  show "\<forall>es. despachar h ?partes = Lanza es
               \<longrightarrow> alRecibir cfg h message = Termina (es @ [Responde R_ErrorInterno])
                   \<and> respuestasDe (es @ [Responde R_ErrorInterno])
                       = respuestasDe es @ [R_ErrorInterno]"
    by (simp add: r respuestasDe_append)
  show "\<forall>es. despachar h ?partes = Termina es \<longrightarrow> alRecibir cfg h message = Termina es"
    by (simp add: r)
next
  show "\<exists>es. alRecibir cfg h message = Termina es"
    using capturar_termina by (auto simp: alRecibir_def Let_def)
qed

theorem frontera_del_despachador_witness:
  "on_message_create CONFIG (registroCon [])
      \<lparr>m_from = js ''otro@g.us'', m_body = js ''!ayuda''\<rparr> = Termina []
   \<and> on_message_create CONFIG (registroCon [])
      \<lparr>m_from = GRUPO_ID CONFIG, m_body = js ''hola !ayuda''\<rparr> = Termina []
   \<and> length (respuestasDe (eventos (on_message_create CONFIG (registroCon [])
        \<lparr>m_from = GRUPO_ID CONFIG, m_body = js '' !consulta Juan ''\<rparr>))) = 1
   \<and> alRecibir CONFIG
        \<lparr>h_pago = (\<lambda>_. Termina []), h_cliente = (\<lambda>_. Termina []),
         h_consulta = (\<lambda>_. Lanza [PideLista]), h_ayuda = Termina []\<rparr>
        \<lparr>m_from = GRUPO_ID CONFIG, m_body = js '' !consulta Juan ''\<rparr>
      = Termina [PideLista, Responde R_ErrorInterno]
   \<and> alRecibir CONFIG
        \<lparr>h_pago = (\<lambda>_. Termina []), h_cliente = (\<lambda>_. Termina []),
         h_consulta = (\<lambda>_. Lanza [PideLista]), h_ayuda = Termina []\<rparr>
        \<lparr>m_from = GRUPO_ID CONFIG, m_body = js ''!AYUDA''\<rparr>
      = Termina []"
proof -
  let ?h = "\<lparr>h_pago = (\<lambda>_. Termina []), h_cliente = (\<lambda>_. Termina []),
         h_consulta = (\<lambda>_. Lanza [PideLista]), h_ayuda = Termina []\<rparr>"
  let ?m1 = "\<lparr>m_from = js ''otro@g.us'', m_body = js ''!ayuda''\<rparr>"
  let ?m2 = "\<lparr>m_from = GRUPO_ID CONFIG, m_body = js ''hola !ayuda''\<rparr>"
  let ?m3 = "\<lparr>m_from = GRUPO_ID CONFIG, m_body = js '' !consulta Juan ''\<rparr>"
  let ?m4 = "\<lparr>m_from = GRUPO_ID CONFIG, m_body = js ''!AYUDA''\<rparr>"
  have g: "GRUPO_ID CONFIG \<noteq> []" "PREFIJO CONFIG = js ''!''"
    by (simp_all add: CONFIG_def js_def)
  have c1: "(GRUPO_ID CONFIG \<noteq> [] \<and> m_from ?m1 \<noteq> GRUPO_ID CONFIG)
      \<or> \<not> startsWith (trim (m_body ?m1)) (PREFIJO CONFIG)"
    by (simp add: CONFIG_def js_def)
  have c2: "(GRUPO_ID CONFIG \<noteq> [] \<and> m_from ?m2 \<noteq> GRUPO_ID CONFIG)
      \<or> \<not> startsWith (trim (m_body ?m2)) (PREFIJO CONFIG)"
    by (simp add: g evaluar_texto)
  have c3: "\<not> (GRUPO_ID CONFIG \<noteq> [] \<and> m_from ?m3 \<noteq> GRUPO_ID CONFIG)
        \<and> startsWith (trim (m_body ?m3)) (PREFIJO CONFIG)"
    by (simp add: g evaluar_texto)
  have d: "despachar ?h (splitEspacios (trim (drop 1 (trim (m_body ?m3))))) = Lanza [PideLista]"
    by (simp add: despachar_def evaluar_texto)
  from frontera_del_despachador [of CONFIG ?m1 ?h "registroCon []"] c1
  have w1: "on_message_create CONFIG (registroCon []) ?m1 = Termina []" by blast
  from frontera_del_despachador [of CONFIG ?m2 ?h "registroCon []"] c2
  have w2: "on_message_create CONFIG (registroCon []) ?m2 = Termina []" by blast
  note t3 = frontera_del_despachador [of CONFIG ?m3 ?h "registroCon []"]
  from t3 c3 obtain es where "on_message_create CONFIG (registroCon []) ?m3 = Termina es"
    and "length (respuestasDe es) = 1" by blast
  then have w3: "length (respuestasDe (eventos (on_message_create CONFIG (registroCon []) ?m3))) = 1"
    by simp
  from t3 c3 d have "alRecibir CONFIG ?h ?m3 = Termina ([PideLista] @ [Responde R_ErrorInterno])"
    by blast
  then have w4: "alRecibir CONFIG ?h ?m3 = Termina [PideLista, Responde R_ErrorInterno]"
    by simp
  have c4: "\<not> (GRUPO_ID CONFIG \<noteq> [] \<and> m_from ?m4 \<noteq> GRUPO_ID CONFIG)
        \<and> startsWith (trim (m_body ?m4)) (PREFIJO CONFIG)"
    by (simp add: g evaluar_texto)
  have d4: "despachar ?h (splitEspacios (trim (drop 1 (trim (m_body ?m4))))) = Termina []"
    by (simp add: despachar_def evaluar_texto)
  from frontera_del_despachador [of CONFIG ?m4 ?h "registroCon []"] c4 d4
  have w5: "alRecibir CONFIG ?h ?m4 = Termina []" by blast
  from w1 w2 w3 w4 w5 show ?thesis by blast
qed

end
